theory Spec2Isabelle
  imports Complex_Main
begin

section \<open>JSON values and the JavaScript coercions of server.js\<close>

text \<open>
  The values \<^verbatim>\<open>JSON.parse\<close> can return. An object keeps its members in file order; a
  number is a real (the handlers only test a number for zero, add a count and divide an
  area by 10000, so IEEE rounding is outside this model).
\<close>

datatype json =
    JNull
  | JBool bool
  | JNum real
  | JStr string
  | JArr "json list"
  | JObj "(string \<times> json) list"

text \<open>A thrown JavaScript error; the handlers only ever read its \<^verbatim>\<open>message\<close>.\<close>

datatype js_error = Error (message: string)

definition apos :: char where
  "apos = CHR 0x27"

definition null_read :: "string \<Rightarrow> string" where
  "null_read k = ''Cannot read properties of null (reading '' @ [apos] @ k @ [apos] @ '')''"

text \<open>
  \<^verbatim>\<open>v.k\<close> for one of the keys server.js reads (\<^verbatim>\<open>type\<close>, \<^verbatim>\<open>features\<close>, \<^verbatim>\<open>geometry\<close>,
  \<^verbatim>\<open>properties\<close>), none of which is inherited from a prototype: reading from
  \<^verbatim>\<open>null\<close> throws a TypeError, an object gives its member (the last one when the key
  is repeated, as \<^verbatim>\<open>JSON.parse\<close> keeps it), and every other value gives
  \<^verbatim>\<open>undefined\<close>, which is \<open>None\<close>.
\<close>

fun get_prop :: "json \<Rightarrow> string \<Rightarrow> js_error + json option" where
  "get_prop JNull k = Inl (Error (null_read k))"
| "get_prop (JObj kvs) k = Inr (map_of (rev kvs) k)"
| "get_prop v k = Inr None"

text \<open>JavaScript truthiness of a parsed JSON value (\<^verbatim>\<open>JSON.parse\<close> never gives NaN).\<close>

fun truthy :: "json \<Rightarrow> bool" where
  "truthy JNull = False"
| "truthy (JBool b) = b"
| "truthy (JNum x) = (x \<noteq> 0)"
| "truthy (JStr s) = (s \<noteq> [])"
| "truthy (JArr xs) = True"
| "truthy (JObj kvs) = True"

text \<open>\<^verbatim>\<open>v || null\<close> and \<^verbatim>\<open>v ? JSON.stringify(v) : null\<close>: a falsy value becomes null (\<open>None\<close>).\<close>

definition or_null :: "json option \<Rightarrow> json option" where
  "or_null v = (case v of None \<Rightarrow> None | Some x \<Rightarrow> if truthy x then Some x else None)"

subsection \<open>Text as code points\<close>

text \<open>
  A string is held as the bytes of its UTF-8 form, as Node sends it and PostgreSQL keeps
  it; \<open>code_points\<close> reads the characters back (one code point from one to four bytes).
  Text is taken to be well-formed; a sequence cut short is read from the bytes present.
\<close>

definition utf8_len :: "char \<Rightarrow> nat" where
  "utf8_len a =
     (let n = (of_char a :: nat)
      in if n < 0xC0 then 1 else if n < 0xE0 then 2 else if n < 0xF0 then 3 else 4)"

definition utf8_value :: "string \<Rightarrow> nat" where
  "utf8_value bs =
     (case bs of
        [] \<Rightarrow> 0
      | [a] \<Rightarrow> of_char a
      | a # cs \<Rightarrow>
          foldl (\<lambda>v b. v * 64 + (of_char b :: nat) mod 64)
            ((of_char a :: nat) mod 2 ^ (7 - length bs)) cs)"

function code_points :: "string \<Rightarrow> nat list" where
  "code_points s =
     (if s = [] then []
      else utf8_value (take (min (utf8_len (hd s)) (length s)) s) #
           code_points (drop (min (utf8_len (hd s)) (length s)) s))"
  by pat_completeness auto
termination
  by (relation "measure length") (auto simp: utf8_len_def Let_def)

declare code_points.simps [simp del]

subsection \<open>parseInt with radix 10, and decimal numerals\<close>

text \<open>
  The white space \<^verbatim>\<open>parseInt\<close> skips: the ECMAScript WhiteSpace and LineTerminator
  code points (tab, LF, VT, FF, CR, space, U+00A0, U+1680, U+2000 to U+200A, U+2028,
  U+2029, U+202F, U+205F, U+3000, U+FEFF).
\<close>

definition is_ws :: "nat \<Rightarrow> bool" where
  "is_ws n =
     (n \<in> {9, 10, 11, 12, 13, 32, 0xA0, 0x1680, 0x2028, 0x2029, 0x202F, 0x205F, 0x3000, 0xFEFF}
      \<or> (0x2000 \<le> n \<and> n \<le> 0x200A))"

definition is_digit :: "nat \<Rightarrow> bool" where
  "is_digit n = (48 \<le> n \<and> n \<le> 57)"

definition digit_val :: "nat \<Rightarrow> nat" where
  "digit_val n = n - 48"

definition digits_val :: "nat list \<Rightarrow> nat" where
  "digits_val ds = foldl (\<lambda>a c. 10 * a + digit_val c) 0 ds"

text \<open>
  \<^verbatim>\<open>parseInt(s, 10)\<close>: leading white space is skipped, one sign (45 is \<^verbatim>\<open>-\<close>, 43 is
  \<^verbatim>\<open>+\<close>) is read, then the longest run of decimal digits; \<open>None\<close> is NaN (no digit).
  The result is the integer the digits denote. The JavaScript number is the double
  nearest to it, which is that integer itself up to \<open>2^53\<close> in magnitude; what reaches
  the database beyond that is \<open>bigint_param\<close> below.
\<close>

definition parseInt10 :: "string \<Rightarrow> int option" where
  "parseInt10 s =
     (let t = dropWhile is_ws (code_points s);
          neg = (t \<noteq> [] \<and> hd t = 45);
          u = (if t \<noteq> [] \<and> (hd t = 45 \<or> hd t = 43) then tl t else t);
          ds = takeWhile is_digit u
      in if ds = [] then None
         else Some (if neg then - int (digits_val ds) else int (digits_val ds)))"

text \<open>
  A query parameter, given as the string \<^verbatim>\<open>parseInt\<close> converts it to, or absent:
  \<^verbatim>\<open>parseInt(undefined, 10)\<close> is NaN.
\<close>

definition parse_param :: "string option \<Rightarrow> int option" where
  "parse_param p = (case p of None \<Rightarrow> None | Some s \<Rightarrow> parseInt10 s)"

text \<open>\<^verbatim>\<open>n || d\<close> on a number: NaN and 0 are falsy.\<close>

definition or_default :: "int option \<Rightarrow> int \<Rightarrow> int" where
  "or_default v d = (case v of None \<Rightarrow> d | Some n \<Rightarrow> if n = 0 then d else n)"

definition digit_char :: "nat \<Rightarrow> char" where
  "digit_char d = char_of (48 + d)"

text \<open>The decimal text of a count, as a template literal and a bigint column print it.\<close>

function dec :: "nat \<Rightarrow> string" where
  "dec n = (if n < 10 then [digit_char n] else dec (n div 10) @ [digit_char (n mod 10)])"
  by pat_completeness auto
termination
  by (relation "measure id") auto

declare dec.simps [simp del]

section \<open>The database behind the connection pool\<close>

text \<open>
  One row of table \<^verbatim>\<open>landuse\<close>: the serial identifier (the table's key), the geometry
  as the engine stores it, and the category label, which may be SQL NULL.
\<close>

record row =
  row_id :: int
  geom :: json
  ltype :: "string option"

text \<open>
  The statements server.js sends through \<^verbatim>\<open>pool.query\<close>. An INSERT carries its
  parameter pairs (the geometry whose JSON text is sent, and the label); a page query
  carries the filter, the offset and the limit as the handler computed them.
\<close>

datatype query =
    Begin
  | DeleteAll
  | Insert "(json \<times> json) list"
  | Commit
  | Rollback
  | SelectPage "string option" int int
  | SelectArea string

text \<open>What a statement resolves to: nothing, the one-row GeoJSON document, or the
  one-row aggregate (the count as bigint text, the sum as a number or NULL).\<close>

datatype result =
    Done
  | Geojson json
  | Aggregate string "real option"

text \<open>
  What the repository does not contain and the driver and the database engine decide:
  \<^item> \<open>param_text\<close>: how the driver writes a label that is not a string;
  \<^item> \<open>st_area\<close>: the geodesic area of a stored geometry;
  \<^item> \<open>from_geojson\<close>: \<^verbatim>\<open>ST_SetSRID(ST_GeomFromGeoJSON(text), 4326)\<close> on the JSON text
    of a value: the stored geometry, or the message it is rejected with;
  \<^item> \<open>to_geojson\<close>: \<^verbatim>\<open>ST_AsGeoJSON\<close> of a stored geometry;
  \<^item> \<open>to_lower\<close>: the lower-case form of a character under the database's collation,
    which \<^verbatim>\<open>LOWER\<close> applies to every character of a text;
  \<^item> \<open>wire_int\<close>: for an integer beyond \<open>2^53\<close> in magnitude, the bigint the database
    reads from the text the driver sends for the nearest double, or the message it
    rejects that text with.
\<close>

record engine =
  param_text :: "json \<Rightarrow> string"
  st_area :: "json \<Rightarrow> real"
  from_geojson :: "json \<Rightarrow> string + json"
  to_geojson :: "json \<Rightarrow> json"
  to_lower :: "nat \<Rightarrow> nat"
  wire_int :: "int \<Rightarrow> string + int"

text \<open>
  A client of the pool is idle (no entry), inside an open transaction, or inside a
  transaction that a rejected statement has aborted. An open transaction holds the
  identifiers of the committed rows it has deleted and the rows it has inserted, both
  pending until it commits.
\<close>

datatype session = Open (gone: "int list") (added: "row list") | Aborted

text \<open>
  The world a handler runs in. \<open>committed\<close> is the table as committed; \<open>sessions\<close>
  gives the transaction state of each client of the pool; \<open>script\<close> says, for each
  coming \<^verbatim>\<open>pool.query\<close> call, which client the pool hands out and whether the
  statement is rejected (\<open>Some m\<close>: with message \<open>m\<close>), the pool handing out client 0
  with no rejection once the script is used up; \<open>qlog\<close> records every statement sent with
  its outcome; \<open>files\<close> maps a path to what reading and parsing the file gives
  (\<open>Inl m\<close>: it throws with message \<open>m\<close>). Which client serves a call is the pool's
  choice and depends on the other requests in flight, hence the script; a statement is
  never made to wait for a lock.
\<close>

record world =
  committed :: "row list"
  sessions :: "nat \<Rightarrow> session option"
  next_id :: int
  script :: "(nat \<times> string option) list"
  qlog :: "(query \<times> string option) list"
  files :: "string \<Rightarrow> (string + json) option"

definition next_client :: "world \<Rightarrow> nat" where
  "next_client w = (case script w of [] \<Rightarrow> 0 | e # _ \<Rightarrow> fst e)"

definition scheduled :: "world \<Rightarrow> string option" where
  "scheduled w = (case script w of [] \<Rightarrow> None | e # _ \<Rightarrow> snd e)"

definition set_session :: "nat \<Rightarrow> session option \<Rightarrow> world \<Rightarrow> world" where
  "set_session c s w = w\<lparr>sessions := (sessions w)(c := s)\<rparr>"

text \<open>The committed rows a transaction has not deleted.\<close>

definition remaining :: "int list \<Rightarrow> row list \<Rightarrow> row list" where
  "remaining g rs = filter (\<lambda>r. row_id r \<notin> set g) rs"

text \<open>The rows a statement on client \<open>c\<close> sees, and the rows the next statement sees.\<close>

definition visible_to :: "nat \<Rightarrow> world \<Rightarrow> row list" where
  "visible_to c w =
     (case sessions w c of
        Some (Open g a) \<Rightarrow> remaining g (committed w) @ a
      | _ \<Rightarrow> committed w)"

definition visible :: "world \<Rightarrow> row list" where
  "visible w = visible_to (next_client w) w"

definition label_text :: "engine \<Rightarrow> json \<Rightarrow> string" where
  "label_text eng v = (case v of JStr s \<Rightarrow> s | _ \<Rightarrow> param_text eng v)"

text \<open>The messages with which the engine rejects the geometries of an INSERT, in order.\<close>

definition geom_errors :: "engine \<Rightarrow> (json \<times> json) list \<Rightarrow> string list" where
  "geom_errors eng ps =
     concat (map (\<lambda>p. case from_geojson eng (fst p) of Inl m \<Rightarrow> [m] | Inr _ \<Rightarrow> []) ps)"

definition stored_geom :: "engine \<Rightarrow> json \<Rightarrow> json" where
  "stored_geom eng g = (case from_geojson eng g of Inr v \<Rightarrow> v | Inl _ \<Rightarrow> JNull)"

text \<open>
  The rows one INSERT statement adds when every geometry is accepted: one per
  parameter pair, identifiers in sequence.
\<close>

fun mk_rows :: "engine \<Rightarrow> int \<Rightarrow> (json \<times> json) list \<Rightarrow> row list" where
  "mk_rows eng n [] = []"
| "mk_rows eng n ((g, t) # ps) =
     \<lparr>row_id = n, geom = stored_geom eng g, ltype = Some (label_text eng t)\<rparr> #
     mk_rows eng (n + 1) ps"

text \<open>\<^verbatim>\<open>LOWER(text)\<close>, as the sequence of lower-cased characters.\<close>

definition sql_lower :: "engine \<Rightarrow> string \<Rightarrow> nat list" where
  "sql_lower eng s = map (to_lower eng) (code_points s)"

text \<open>\<^verbatim>\<open>WHERE LOWER(type) = LOWER($1)\<close>; no \<^verbatim>\<open>WHERE\<close> clause when the filter is \<open>None\<close>.\<close>

definition matches :: "engine \<Rightarrow> string \<Rightarrow> row \<Rightarrow> bool" where
  "matches eng ty r =
     (case ltype r of None \<Rightarrow> False | Some s \<Rightarrow> sql_lower eng s = sql_lower eng ty)"

definition select_rows :: "engine \<Rightarrow> string option \<Rightarrow> row list \<Rightarrow> row list" where
  "select_rows eng flt rs = (case flt of None \<Rightarrow> rs | Some ty \<Rightarrow> filter (matches eng ty) rs)"

text \<open>\<^verbatim>\<open>ST_AsGeoJSON(t.*)::jsonb\<close>: a Feature whose properties are the other columns.\<close>

definition as_geojson :: "engine \<Rightarrow> row \<Rightarrow> json" where
  "as_geojson eng r =
     JObj [(''type'', JStr ''Feature''),
           (''geometry'', to_geojson eng (geom r)),
           (''properties'',
              JObj [(''id'', JNum (real_of_int (row_id r))),
                    (''type'', (case ltype r of None \<Rightarrow> JNull | Some s \<Rightarrow> JStr s))])]"

definition feature_collection :: "json list \<Rightarrow> json" where
  "feature_collection fs = JObj [(''type'', JStr ''FeatureCollection''), (''features'', JArr fs)]"

text \<open>\<^verbatim>\<open>ORDER BY id OFFSET $1 LIMIT $2\<close> on the selected rows.\<close>

definition page :: "int \<Rightarrow> int \<Rightarrow> row list \<Rightarrow> row list" where
  "page ofs lmt rs = take (nat lmt) (drop (nat ofs) (sort_key row_id rs))"

text \<open>
  The bigint the database reads for a number the handler passes: the number itself up
  to \<open>2^53\<close> in magnitude (a double holds it exactly and the driver sends its digits),
  and what the engine makes of the driver's text beyond.
\<close>

definition bigint_param :: "engine \<Rightarrow> int \<Rightarrow> string + int" where
  "bigint_param eng n = (if \<bar>n\<bar> \<le> 2 ^ 53 then Inr n else wire_int eng n)"

definition aborted_message :: string where
  "aborted_message =
     ''current transaction is aborted, commands ignored until end of transaction block''"

text \<open>
  What a statement does on the client the pool hands out, outside an aborted
  transaction. BEGIN inside a transaction and COMMIT or ROLLBACK outside one only
  raise a warning. A statement outside a transaction commits at once. PostgreSQL
  rejects an INSERT with a geometry it cannot read, a parameter that is not a bigint,
  and a negative \<^verbatim>\<open>OFFSET\<close> or \<^verbatim>\<open>LIMIT\<close>; \<^verbatim>\<open>SUM\<close> over no row is NULL.
\<close>

fun run :: "engine \<Rightarrow> query \<Rightarrow> world \<Rightarrow> js_error + (result \<times> world)" where
  "run eng Begin w =
     Inr (Done,
          (case sessions w (next_client w) of
             None \<Rightarrow> set_session (next_client w) (Some (Open [] [])) w
           | Some _ \<Rightarrow> w))"
| "run eng DeleteAll w =
     Inr (Done,
          (case sessions w (next_client w) of
             Some (Open g a) \<Rightarrow>
               set_session (next_client w)
                 (Some (Open (g @ map row_id (remaining g (committed w))) [])) w
           | _ \<Rightarrow> w\<lparr>committed := []\<rparr>))"
| "run eng (Insert ps) w =
     (case geom_errors eng ps of
        m # _ \<Rightarrow> Inl (Error m)
      | [] \<Rightarrow>
          Inr (Done,
               (case sessions w (next_client w) of
                  Some (Open g a) \<Rightarrow>
                    set_session (next_client w)
                      (Some (Open g (a @ mk_rows eng (next_id w) ps))) w
                | _ \<Rightarrow> w\<lparr>committed := committed w @ mk_rows eng (next_id w) ps\<rparr>)
               \<lparr>next_id := next_id w + int (length ps)\<rparr>))"
| "run eng Commit w =
     Inr (Done,
          (case sessions w (next_client w) of
             Some (Open g a) \<Rightarrow>
               (set_session (next_client w) None w)
                 \<lparr>committed := remaining g (committed w) @ a\<rparr>
           | _ \<Rightarrow> set_session (next_client w) None w))"
| "run eng Rollback w = Inr (Done, set_session (next_client w) None w)"
| "run eng (SelectPage flt ofs lmt) w =
     (case bigint_param eng ofs of
        Inl m \<Rightarrow> Inl (Error m)
      | Inr bo \<Rightarrow>
     (case bigint_param eng lmt of
        Inl m \<Rightarrow> Inl (Error m)
      | Inr bl \<Rightarrow>
          if bo < 0 then Inl (Error ''OFFSET must not be negative'')
          else if bl < 0 then Inl (Error ''LIMIT must not be negative'')
          else Inr (Geojson (feature_collection
                      (map (as_geojson eng) (page bo bl (select_rows eng flt (visible w))))), w)))"
| "run eng (SelectArea ty) w =
     (let rs = select_rows eng (Some ty) (visible w)
      in Inr (Aggregate (dec (length rs))
                (if rs = [] then None else Some (sum_list (map (\<lambda>r. st_area eng (geom r)) rs))),
              w))"

text \<open>
  Inside an aborted transaction the engine rejects every statement but COMMIT and
  ROLLBACK, which both end it.
\<close>

definition effect :: "engine \<Rightarrow> query \<Rightarrow> world \<Rightarrow> js_error + (result \<times> world)" where
  "effect eng q w =
     (if sessions w (next_client w) = Some Aborted \<and> q \<noteq> Commit \<and> q \<noteq> Rollback
      then Inl (Error aborted_message)
      else run eng q w)"

text \<open>
  The rejection that awaits the next statement before the engine looks at it: the
  scheduled one, or that of an aborted transaction on the client handed out.
\<close>

definition next_failure :: "world \<Rightarrow> string option" where
  "next_failure w =
     (case scheduled w of
        Some m \<Rightarrow> Some m
      | None \<Rightarrow> if sessions w (next_client w) = Some Aborted then Some aborted_message else None)"

text \<open>A rejected statement aborts the transaction of its client, if it is in one.\<close>

definition abort_open :: "world \<Rightarrow> world" where
  "abort_open w =
     (case sessions w (next_client w) of
        None \<Rightarrow> w
      | Some _ \<Rightarrow> set_session (next_client w) (Some Aborted) w)"

definition logged :: "query \<Rightarrow> string option \<Rightarrow> world \<Rightarrow> world" where
  "logged q out w = w\<lparr>script := tl (script w), qlog := qlog w @ [(q, out)]\<rparr>"

text \<open>
  \<^verbatim>\<open>await pool.query(...)\<close>: the pool hands out a client for this one statement; the
  scheduled rejection, if any, leaves the data alone; otherwise the engine runs the
  statement on that client. Either way the statement is logged with its outcome.
\<close>

definition pool_query :: "engine \<Rightarrow> query \<Rightarrow> world \<Rightarrow> (js_error + result) \<times> world" where
  "pool_query eng q w =
     (case scheduled w of
        Some m \<Rightarrow> (Inl (Error m), logged q (Some m) (abort_open w))
      | None \<Rightarrow>
          (case effect eng q w of
             Inl e \<Rightarrow> (Inl e, logged q (Some (message e)) (abort_open w))
           | Inr (r, w') \<Rightarrow> (Inr r, logged q None w')))"

section \<open>The request handlers of server.js\<close>

record response =
  status :: nat
  body :: json

text \<open>\<^verbatim>\<open>res.json(v)\<close> and \<^verbatim>\<open>res.status(c).json({ error: m })\<close>.\<close>

definition json_ok :: "json \<Rightarrow> response" where
  "json_ok v = \<lparr>status = 200, body = v\<rparr>"

definition json_error :: "nat \<Rightarrow> string \<Rightarrow> response" where
  "json_error c m = \<lparr>status = c, body = JObj [(''error'', JStr m)]\<rparr>"

definition not_found :: "string \<Rightarrow> string" where
  "not_found ty = ''No features found with type '' @ [apos] @ ty @ [apos]"

subsection \<open>GET /api/land\_use and GET /api/filter/:type\<close>

definition land_use_handler ::
  "engine \<Rightarrow> string option \<Rightarrow> string option \<Rightarrow> world \<Rightarrow> response \<times> world" where
  "land_use_handler eng qlimit qoffset w =
     (let lmt = or_default (parse_param qlimit) 1000;
          ofs = or_default (parse_param qoffset) 0
      in case pool_query eng (SelectPage None ofs lmt) w of
           (Inr (Geojson g), w') \<Rightarrow> (json_ok g, w')
         | (_, w') \<Rightarrow> (json_error 500 ''Database error fetching land use'', w'))"

text \<open>\<^verbatim>\<open>!result || !result.features || result.features.length === 0\<close>.\<close>

definition no_features :: "json \<Rightarrow> bool" where
  "no_features g =
     (\<not> truthy g \<or>
      (case get_prop g ''features'' of
         Inr (Some fs) \<Rightarrow> \<not> truthy fs \<or> (case fs of JArr xs \<Rightarrow> xs = [] | _ \<Rightarrow> False)
       | _ \<Rightarrow> True))"

definition filter_handler ::
  "engine \<Rightarrow> string \<Rightarrow> string option \<Rightarrow> string option \<Rightarrow> world \<Rightarrow> response \<times> world" where
  "filter_handler eng ty qlimit qoffset w =
     (let lmt = or_default (parse_param qlimit) 1000;
          ofs = or_default (parse_param qoffset) 0
      in case pool_query eng (SelectPage (Some ty) ofs lmt) w of
           (Inr (Geojson g), w') \<Rightarrow>
             (if no_features g then (json_error 404 (not_found ty), w') else (json_ok g, w'))
         | (_, w') \<Rightarrow> (json_error 500 ''Database error filtering land use'', w'))"

subsection \<open>GET /api/area/:type\<close>

text \<open>\<^verbatim>\<open>parseFloat(total || 0)\<close>: NULL and 0 both give 0.\<close>

definition or_zero :: "real option \<Rightarrow> real" where
  "or_zero t = (case t of None \<Rightarrow> 0 | Some a \<Rightarrow> if a = 0 then 0 else a)"

text \<open>A number in a JSON body: NaN is written as null.\<close>

definition json_int :: "int option \<Rightarrow> json" where
  "json_int v = (case v of None \<Rightarrow> JNull | Some n \<Rightarrow> JNum (real_of_int n))"

definition area_handler :: "engine \<Rightarrow> string \<Rightarrow> world \<Rightarrow> response \<times> world" where
  "area_handler eng ty w =
     (case pool_query eng (SelectArea ty) w of
        (Inr (Aggregate feature_count total_area_m2), w') \<Rightarrow>
          (let count = parseInt10 feature_count;
               area = or_zero total_area_m2
           in if count = Some 0 then (json_error 404 (not_found ty), w')
              else (json_ok (JObj [(''type'', JStr ty),
                                   (''totalAreaSquareMeters'', JNum area),
                                   (''totalAreaHectares'', JNum (area / 10000)),
                                   (''featureCount'', json_int count)]), w'))
      | (_, w') \<Rightarrow> (json_error 500 ''Database error calculating area'', w'))"

subsection \<open>POST /api/upload\<close>

definition BATCH_SIZE :: nat where
  "BATCH_SIZE = 500"

text \<open>\<^verbatim>\<open>xs.slice(i, j)\<close> for \<open>i \<le> j\<close>.\<close>

definition slice :: "nat \<Rightarrow> nat \<Rightarrow> 'a list \<Rightarrow> 'a list" where
  "slice i j xs = take (j - i) (drop i xs)"

text \<open>\<^verbatim>\<open>f.properties?.type\<close>, once \<^verbatim>\<open>f.geometry\<close> has shown that \<open>f\<close> is not null.\<close>

definition properties_type :: "json \<Rightarrow> json option" where
  "properties_type f =
     (case get_prop f ''properties'' of
        Inr (Some p) \<Rightarrow> (case get_prop p ''type'' of Inr t \<Rightarrow> t | Inl _ \<Rightarrow> None)
      | _ \<Rightarrow> None)"

text \<open>
  The body of \<^verbatim>\<open>batch.forEach\<close> for one feature: the pair it pushes on \<^verbatim>\<open>params\<close>,
  if any. \<^verbatim>\<open>JSON.stringify\<close> of a truthy geometry is a non-empty string, so
  \<^verbatim>\<open>geomJSON\<close> is truthy exactly when the geometry is.
\<close>

definition feature_params :: "json \<Rightarrow> js_error + (json \<times> json) option" where
  "feature_params f =
     (case get_prop f ''geometry'' of
        Inl e \<Rightarrow> Inl e
      | Inr g \<Rightarrow>
          (let geomJSON = or_null g;
               typeVal = or_null (properties_type f)
           in case (geomJSON, typeVal) of
                (Some gj, Some tv) \<Rightarrow> Inr (Some (gj, tv))
              | _ \<Rightarrow> Inr None))"

fun batch_params :: "json list \<Rightarrow> (json \<times> json) list \<Rightarrow> js_error + (json \<times> json) list" where
  "batch_params [] params = Inr params"
| "batch_params (f # fs) params =
     (case feature_params f of
        Inl e \<Rightarrow> Inl e
      | Inr None \<Rightarrow> batch_params fs params
      | Inr (Some p) \<Rightarrow> batch_params fs (params @ [p]))"

text \<open>The \<^verbatim>\<open>for\<close> loop over the batches, from index \<open>i\<close> with the running count.\<close>

function insert_batches ::
  "engine \<Rightarrow> json list \<Rightarrow> nat \<Rightarrow> nat \<Rightarrow> world \<Rightarrow> (js_error + nat) \<times> world" where
  "insert_batches eng features i insertCount w =
     (if i < length features then
        (let batch = slice i (i + BATCH_SIZE) features
         in case batch_params batch [] of
              Inl e \<Rightarrow> (Inl e, w)
            | Inr params \<Rightarrow>
                if params \<noteq> [] then
                  (case pool_query eng (Insert params) w of
                     (Inl e, w') \<Rightarrow> (Inl e, w')
                   | (Inr _, w') \<Rightarrow>
                       insert_batches eng features (i + BATCH_SIZE)
                         (insertCount + length batch) w')
                else insert_batches eng features (i + BATCH_SIZE) insertCount w)
      else (Inr insertCount, w))"
  by pat_completeness auto
termination
  by (relation "measure (\<lambda>(eng, features, i, insertCount, w). length features - i)")
     (auto simp: BATCH_SIZE_def)

declare insert_batches.simps [simp del]

definition uploaded_path :: "string \<Rightarrow> string" where
  "uploaded_path filename = ''uploads/'' @ filename"

definition read_json :: "string \<Rightarrow> world \<Rightarrow> js_error + json" where
  "read_json path w =
     (case files w path of
        None \<Rightarrow> Inl (Error (''ENOENT: no such file or directory, open '' @ [apos] @ path @ [apos]))
      | Some (Inl m) \<Rightarrow> Inl (Error m)
      | Some (Inr v) \<Rightarrow> Inr v)"

text \<open>
  \<^verbatim>\<open>data.type !== 'FeatureCollection' || !Array.isArray(data.features)\<close>, which throws
  a TypeError of its own when \<open>data\<close> is null.
\<close>

definition validate :: "json \<Rightarrow> js_error + json list" where
  "validate data =
     (case get_prop data ''type'' of
        Inl e \<Rightarrow> Inl e
      | Inr t \<Rightarrow>
          if t \<noteq> Some (JStr ''FeatureCollection'') then Inl (Error ''Invalid GeoJSON format'')
          else (case get_prop data ''features'' of
                  Inr (Some (JArr fs)) \<Rightarrow> Inr fs
                | _ \<Rightarrow> Inl (Error ''Invalid GeoJSON format'')))"

text \<open>The \<^verbatim>\<open>try\<close> block: \<open>Inl e\<close> when it throws \<open>e\<close>, \<open>Inr n\<close> with the final count.\<close>

definition upload_try :: "engine \<Rightarrow> string \<Rightarrow> world \<Rightarrow> (js_error + nat) \<times> world" where
  "upload_try eng path w =
     (case read_json path w of
        Inl e \<Rightarrow> (Inl e, w)
      | Inr data \<Rightarrow>
     (case validate data of
        Inl e \<Rightarrow> (Inl e, w)
      | Inr features \<Rightarrow>
     (case pool_query eng Begin w of
        (Inl e, w1) \<Rightarrow> (Inl e, w1)
      | (Inr _, w1) \<Rightarrow>
     (case pool_query eng DeleteAll w1 of
        (Inl e, w2) \<Rightarrow> (Inl e, w2)
      | (Inr _, w2) \<Rightarrow>
     (case insert_batches eng features 0 0 w2 of
        (Inl e, w3) \<Rightarrow> (Inl e, w3)
      | (Inr insertCount, w3) \<Rightarrow>
     (case pool_query eng Commit w3 of
        (Inl e, w4) \<Rightarrow> (Inl e, w4)
      | (Inr _, w4) \<Rightarrow> (Inr insertCount, w4)))))))"

definition success_message :: "nat \<Rightarrow> string" where
  "success_message n =
     ''GeoJSON uploaded and database updated successfully! Inserted '' @ dec n @ '' features.''"

definition fallback_message :: string where
  "fallback_message = ''Failed to upload and save GeoJSON''"

text \<open>\<^verbatim>\<open>e.message || 'Failed to upload and save GeoJSON'\<close>.\<close>

definition message_or_fallback :: "js_error \<Rightarrow> string" where
  "message_or_fallback e = (if message e = [] then fallback_message else message e)"

text \<open>
  The handler: 400 without a file; otherwise the \<^verbatim>\<open>try\<close> block, the \<^verbatim>\<open>catch\<close> block
  (a ROLLBACK whose own failure is dropped, then the 500 response) and the
  \<^verbatim>\<open>finally\<close> block, which unlinks the uploaded file when it exists.
\<close>

definition upload_handler :: "engine \<Rightarrow> string option \<Rightarrow> world \<Rightarrow> response \<times> world" where
  "upload_handler eng req_file w =
     (case req_file of
        None \<Rightarrow> (json_error 400 ''No file uploaded'', w)
      | Some filename \<Rightarrow>
          (let uploadedPath = uploaded_path filename;
               (res, w') =
                  (case upload_try eng uploadedPath w of
                     (Inr insertCount, w1) \<Rightarrow>
                        (json_ok (JObj [(''message'', JStr (success_message insertCount))]), w1)
                   | (Inl e, w1) \<Rightarrow>
                        (json_error 500 (message_or_fallback e),
                         snd (pool_query eng Rollback w1)))
           in (res, w'\<lparr>files := (files w')(uploadedPath := None)\<rparr>)))"

section \<open>Notions used to state the properties\<close>

text \<open>A value that is neither undefined nor null, and one that is moreover truthy.\<close>

definition non_null :: "json option \<Rightarrow> bool" where
  "non_null v = (case v of None \<Rightarrow> False | Some x \<Rightarrow> x \<noteq> JNull)"

definition defined_truthy :: "json option \<Rightarrow> bool" where
  "defined_truthy v = (case v of None \<Rightarrow> False | Some x \<Rightarrow> truthy x)"

text \<open>The \<^verbatim>\<open>geometry\<close> member of a feature (nothing for a feature that is null).\<close>

definition geometry_of :: "json \<Rightarrow> json option" where
  "geometry_of f = (case get_prop f ''geometry'' of Inr g \<Rightarrow> g | Inl _ \<Rightarrow> None)"

text \<open>A feature is insertable when its geometry and its \<^verbatim>\<open>properties.type\<close> are truthy;
  it then stands for one row, made from that geometry and that label.\<close>

definition insertable :: "json \<Rightarrow> bool" where
  "insertable f = (defined_truthy (geometry_of f) \<and> defined_truthy (properties_type f))"

definition row_params :: "json \<Rightarrow> (json \<times> json) list" where
  "row_params f =
     (case (geometry_of f, properties_type f) of
        (Some g, Some t) \<Rightarrow> if truthy g \<and> truthy t then [(g, t)] else []
      | _ \<Rightarrow> [])"

definition params_of :: "json list \<Rightarrow> (json \<times> json) list" where
  "params_of fs = concat (map row_params fs)"

text \<open>The batches of a feature list: consecutive runs of \<open>BATCH_SIZE\<close> features in input
  order, the last one possibly shorter.\<close>

definition batches :: "'a list \<Rightarrow> 'a list list" where
  "batches xs =
     map (\<lambda>k. slice (k * BATCH_SIZE) (k * BATCH_SIZE + BATCH_SIZE) xs)
       [0 ..< (length xs + BATCH_SIZE - 1) div BATCH_SIZE]"

definition has_rows :: "json list \<Rightarrow> bool" where
  "has_rows b = (params_of b \<noteq> [])"

text \<open>The log entries a handler added, and a log segment without a rejected statement.\<close>

definition new_log :: "world \<Rightarrow> world \<Rightarrow> (query \<times> string option) list" where
  "new_log w w' = drop (length (qlog w)) (qlog w')"

definition clean :: "(query \<times> string option) list \<Rightarrow> bool" where
  "clean l = list_all (\<lambda>e. snd e = None) l"

text \<open>The rows that the INSERT statements of a log segment carry, in order.\<close>

definition inserted :: "(query \<times> string option) list \<Rightarrow> (json \<times> json) list" where
  "inserted l = concat (map (\<lambda>e. case fst e of Insert ps \<Rightarrow> ps | _ \<Rightarrow> []) l)"

text \<open>
  The database accepts what is coming: no rejection is scheduled and no client is
  inside an aborted transaction; and it can read every geometry a feature list sends.
\<close>

definition reliable :: "world \<Rightarrow> bool" where
  "reliable w =
     (list_all (\<lambda>e. snd e = None) (script w) \<and> (\<forall>c. sessions w c \<noteq> Some Aborted))"

definition readable :: "engine \<Rightarrow> json list \<Rightarrow> bool" where
  "readable eng fs = (geom_errors eng (params_of fs) = [])"


text \<open>
  A log segment fits an outcome: every statement but the last was accepted, and the last
  one was accepted too unless the outcome is an error, which may then be the last
  statement's rejection (or an error that no statement raised).
\<close>

definition trace_ok :: "js_error + 'a \<Rightarrow> (query \<times> string option) list \<Rightarrow> bool" where
  "trace_ok r l =
     (clean (butlast l) \<and>
      (case r of
         Inr _ \<Rightarrow> clean l
       | Inl e \<Rightarrow> clean l \<or> (l \<noteq> [] \<and> snd (last l) = Some (message e))))"

definition no_rollback :: "(query \<times> string option) list \<Rightarrow> bool" where
  "no_rollback l = list_all (\<lambda>e. fst e \<noteq> Rollback) l"



section \<open>A small database and an uploaded file\<close>

text \<open>A lower-casing of the letters of ASCII and of Latin-1 (U+00C0 to U+00DE).\<close>

definition example_lower :: "nat \<Rightarrow> nat" where
  "example_lower n =
     (if (65 \<le> n \<and> n \<le> 90) \<or> (192 \<le> n \<and> n \<le> 222 \<and> n \<noteq> 215) then n + 32 else n)"

text \<open>
  The double nearest to an integer: around a magnitude \<open>m\<close> the doubles are \<open>ulp m\<close>
  apart, and a tie goes to the even significand.
\<close>

function ulp :: "nat \<Rightarrow> nat" where
  "ulp m = (if m < 2 ^ 53 then 1 else 2 * ulp (m div 2))"
  by pat_completeness auto
termination
  by (relation "measure id") auto

declare ulp.simps [simp del]

definition nearest_double :: "int \<Rightarrow> int" where
  "nearest_double n =
     (let m = nat \<bar>n\<bar>; q = ulp m; r = m mod q; b = m - r;
          d = (if 2 * r < q \<or> (2 * r = q \<and> even (b div q)) then b else b + q)
      in if n < 0 then - int d else int d)"

text \<open>
  An engine that reads a geometry from a JSON object only and keeps it as it is. Of an
  integer beyond \<open>2^53\<close> it receives the nearest double, which the driver writes with
  an exponent from \<open>10^21\<close> on.
\<close>

definition example_engine :: engine where
  "example_engine =
     \<lparr>param_text = (\<lambda>v. ''?''), st_area = (\<lambda>g. 25000),
      from_geojson = (\<lambda>g. case g of JObj kvs \<Rightarrow> Inr g
                              | _ \<Rightarrow> Inl ''invalid GeoJSON representation''),
      to_geojson = (\<lambda>g. g),
      to_lower = example_lower,
      wire_int = (\<lambda>n. if 10 ^ 21 \<le> \<bar>nearest_double n\<bar>
                       then Inl ''invalid input syntax for type bigint''
                       else if nearest_double n < - (2 ^ 63) \<or> 2 ^ 63 \<le> nearest_double n
                       then Inl ''value out of range for type bigint''
                       else Inr (nearest_double n))\<rparr>"

definition point :: json where
  "point = JObj [(''type'', JStr ''Point''), (''coordinates'', JArr [JNum 85, JNum 27])]"

text \<open>A feature with the point as geometry and the given \<^verbatim>\<open>properties.type\<close>.\<close>

definition feature :: "json \<Rightarrow> json" where
  "feature t =
     JObj [(''type'', JStr ''Feature''), (''geometry'', point), (''properties'', JObj [(''type'', t)])]"

definition forest_row :: row where
  "forest_row = \<lparr>row_id = 7, geom = point, ltype = Some ''Forest''\<rparr>"

text \<open>
  One committed row, every client idle, the given schedule of clients and rejections,
  and the given parsed content in the uploaded file \<^verbatim>\<open>uploads/f1\<close>.
\<close>

definition pooled_world :: "json \<Rightarrow> (nat \<times> string option) list \<Rightarrow> world" where
  "pooled_world data sc =
     \<lparr>committed = [forest_row], sessions = (\<lambda>c. None), next_id = 8, script = sc, qlog = [],
      files = (\<lambda>p. if p = ''uploads/f1'' then Some (Inr data) else None)\<rparr>"

text \<open>The same with every call served by client 0 and the given rejections.\<close>

definition example_world :: "json \<Rightarrow> string option list \<Rightarrow> world" where
  "example_world data sc = pooled_world data (map (Pair 0) sc)"

text \<open>Three rows, not in the order of their identifiers.\<close>

definition three_rows :: "row list" where
  "three_rows =
     [\<lparr>row_id = 7, geom = point, ltype = Some ''Forest''\<rparr>,
      \<lparr>row_id = 3, geom = point, ltype = Some ''Park''\<rparr>,
      \<lparr>row_id = 5, geom = point, ltype = Some ''Road''\<rparr>]"

section \<open>Characters and numerals\<close>

lemma char_of_eval:
  "(char_of (n::nat) = c) = (n mod 256 = of_char c)"
  "(c = char_of (n::nat)) = (n mod 256 = of_char c)"
  using char_of_eq_iff [of n c] by (auto simp: take_bit_eq_mod)

lemma code_points_Nil: "code_points [] = []"
  by (simp add: code_points.simps)

lemma code_points_ascii_Cons:
  "(of_char a :: nat) < 128 \<Longrightarrow> code_points (a # s) = of_char a # code_points s"
  by (subst code_points.simps) (simp add: utf8_len_def utf8_value_def)

lemma code_points_ascii:
  "list_all (\<lambda>a. (of_char a :: nat) < 128) s \<Longrightarrow> code_points s = map of_char s"
  by (induction s) (simp_all add: code_points_Nil code_points_ascii_Cons)




lemma is_digit_not_ws: "is_digit c \<Longrightarrow> \<not> is_ws c \<and> c \<noteq> 45 \<and> c \<noteq> 43"
  by (auto simp: is_digit_def is_ws_def)

lemma parseInt10_digits:
  assumes "s \<noteq> []" and "\<forall>c \<in> set s. is_digit (of_char c) \<and> (of_char c :: nat) < 128"
  shows "parseInt10 s = Some (int (digits_val (map of_char s)))"
proof -
  let ?ds = "map of_char s :: nat list"
  have cp: "code_points s = ?ds"
    using assms(2) by (intro code_points_ascii) (simp add: list_all_iff)
  have ne: "?ds \<noteq> []" using assms(1) by simp
  have all: "\<forall>c \<in> set ?ds. is_digit c" using assms(2) by auto
  from ne all have c: "is_digit (hd ?ds)" by (cases ?ds) auto
  have dw: "dropWhile is_ws ?ds = ?ds"
    using c is_digit_not_ws [OF c] ne by (cases ?ds) auto
  have sg: "hd ?ds \<noteq> 45" "hd ?ds \<noteq> 43"
    using is_digit_not_ws [OF c] by simp_all
  have tw: "takeWhile is_digit ?ds = ?ds"
    using all by (simp add: takeWhile_eq_all_conv)
  show ?thesis
    unfolding parseInt10_def cp dw Let_def
    by (simp add: sg tw assms(1))
qed




section \<open>The batch loop\<close>

lemma get_prop_not_null: "f \<noteq> JNull \<Longrightarrow> \<exists>v. get_prop f k = Inr v"
  by (cases f) simp_all

lemma feature_params_null: "feature_params JNull = Inl (Error (null_read ''geometry''))"
  by (simp add: feature_params_def)

lemma feature_params_row:
  assumes "f \<noteq> JNull"
  shows "feature_params f = Inr (case row_params f of [] \<Rightarrow> None | p # _ \<Rightarrow> Some p)"
proof -
  from assms obtain g where g: "get_prop f ''geometry'' = Inr g"
    using get_prop_not_null by blast
  show ?thesis
    by (simp add: feature_params_def row_params_def geometry_of_def g or_null_def
        split: option.splits)
qed

lemma row_params_insertable:
  "row_params f =
     (if insertable f then [(the (geometry_of f), the (properties_type f))] else [])"
  by (auto simp: row_params_def insertable_def defined_truthy_def split: option.splits)

lemma batch_params_ok: "JNull \<notin> set fs \<Longrightarrow> batch_params fs acc = Inr (acc @ params_of fs)"
proof (induction fs arbitrary: acc)
  case Nil
  then show ?case by (simp add: params_of_def)
next
  case (Cons f fs)
  then have f: "f \<noteq> JNull" and fs: "JNull \<notin> set fs" by auto
  show ?case
    using Cons.IH [OF fs] feature_params_row [OF f]
    by (cases "row_params f") (auto simp: params_of_def row_params_insertable split: if_splits)
qed

lemma batch_params_null:
  "JNull \<in> set fs \<Longrightarrow> batch_params fs acc = Inl (Error (null_read ''geometry''))"
proof (induction fs arbitrary: acc)
  case Nil
  then show ?case by simp
next
  case (Cons f fs)
  show ?case
  proof (cases "f = JNull")
    case True
    then show ?thesis by (simp add: feature_params_null)
  next
    case False
    with Cons.prems have "JNull \<in> set fs" by auto
    then show ?thesis
      using Cons.IH feature_params_row [OF False]
      by (simp split: list.splits)
  qed
qed

lemma batches_Nil: "batches [] = []"
  by (simp add: batches_def BATCH_SIZE_def)

lemma batch_count_step:
  "0 < n \<Longrightarrow> (n + BATCH_SIZE - 1) div BATCH_SIZE = Suc ((n - BATCH_SIZE + BATCH_SIZE - 1) div BATCH_SIZE)"
  unfolding BATCH_SIZE_def by (cases "n < 500") auto

lemma batches_step:
  assumes "xs \<noteq> []"
  shows "batches xs = take BATCH_SIZE xs # batches (drop BATCH_SIZE xs)"
proof -
  let ?m = "(length (drop BATCH_SIZE xs) + BATCH_SIZE - 1) div BATCH_SIZE"
  have n: "(length xs + BATCH_SIZE - 1) div BATCH_SIZE = Suc ?m"
    using batch_count_step [of "length xs"] assms by simp
  have up: "[0 ..< Suc ?m] = 0 # map Suc [0 ..< ?m]"
    by (simp add: upt_conv_Cons map_Suc_upt del: upt_Suc)
  show ?thesis
    unfolding batches_def n up
    by (simp add: slice_def o_def add.commute del: upt_Suc)
qed

lemma params_of_append: "params_of (xs @ ys) = params_of xs @ params_of ys"
  by (simp add: params_of_def)


lemma slice_drop: "slice i (i + BATCH_SIZE) fs = take BATCH_SIZE (drop i fs)"
  by (simp add: slice_def)

lemma drop_more: "drop BATCH_SIZE (drop i fs) = drop (i + BATCH_SIZE) fs"
  by (simp add: add.commute)

lemma drop_split: "drop i fs = take BATCH_SIZE (drop i fs) @ drop (i + BATCH_SIZE) fs"
  using append_take_drop_id [of BATCH_SIZE "drop i fs"] by (simp only: drop_more)

lemma batches_drop:
  "i < length fs \<Longrightarrow>
   batches (drop i fs) = slice i (i + BATCH_SIZE) fs # batches (drop (i + BATCH_SIZE) fs)"
  using batches_step [of "drop i fs"] by (simp add: slice_drop drop_more del: drop_drop)

lemma params_of_drop:
  "params_of (drop i fs) =
   params_of (slice i (i + BATCH_SIZE) fs) @ params_of (drop (i + BATCH_SIZE) fs)"
  using drop_split [of i fs] params_of_append slice_drop by metis

lemma null_in_drop:
  "JNull \<in> set (drop i fs) \<longleftrightarrow>
   JNull \<in> set (slice i (i + BATCH_SIZE) fs) \<or> JNull \<in> set (drop (i + BATCH_SIZE) fs)"
proof -
  have "set (drop i fs) = set (slice i (i + BATCH_SIZE) fs) \<union> set (drop (i + BATCH_SIZE) fs)"
    using drop_split [of i fs] slice_drop [of i fs] set_append by metis
  then show ?thesis by simp
qed

lemma logged_fields [simp]:
  "committed (logged q out w) = committed w"
  "sessions (logged q out w) = sessions w"
  "next_id (logged q out w) = next_id w"
  "files (logged q out w) = files w"
  "qlog (logged q out w) = qlog w @ [(q, out)]"
  "script (logged q out w) = tl (script w)"
  by (simp_all add: logged_def)

lemma abort_open_fields [simp]:
  "committed (abort_open w) = committed w"
  "next_id (abort_open w) = next_id w"
  "files (abort_open w) = files w"
  "qlog (abort_open w) = qlog w"
  "script (abort_open w) = script w"
  by (simp_all add: abort_open_def set_session_def split: option.splits)

lemma set_session_fields [simp]:
  "committed (set_session c s w) = committed w"
  "next_id (set_session c s w) = next_id w"
  "files (set_session c s w) = files w"
  "qlog (set_session c s w) = qlog w"
  "script (set_session c s w) = script w"
  "sessions (set_session c s w) = (sessions w)(c := s)"
  by (simp_all add: set_session_def)

lemma run_frame:
  assumes "run eng q w = Inr (x, w0)"
  shows "qlog w0 = qlog w \<and> script w0 = script w \<and> files w0 = files w"
  using assms
  by (cases q)
     (auto simp: Let_def split: option.splits session.splits list.splits sum.splits if_splits)

lemma effect_frame:
  assumes "effect eng q w = Inr (x, w0)"
  shows "qlog w0 = qlog w \<and> script w0 = script w \<and> files w0 = files w"
  using assms run_frame [of eng q w x w0] by (auto simp: effect_def split: if_splits)

lemma pool_query_reject:
  "scheduled w = Some m \<Longrightarrow>
   pool_query eng q w = (Inl (Error m), logged q (Some m) (abort_open w))"
  by (simp add: pool_query_def)

lemma pool_query_outcome:
  assumes "pool_query eng q w = (r, w1)"
  shows "(\<exists>e. r = Inl e \<and> w1 = logged q (Some (message e)) (abort_open w)) \<or>
         (\<exists>x w0. r = Inr x \<and> scheduled w = None \<and> effect eng q w = Inr (x, w0) \<and>
                  w1 = logged q None w0)"
  using assms
  by (auto simp: pool_query_def split: option.splits sum.splits)

lemma query_step:
  assumes "pool_query eng q w = (r, w1)"
  shows "files w1 = files w \<and> script w1 = tl (script w) \<and>
         qlog w1 = qlog w @ [(q, case r of Inl e \<Rightarrow> Some (message e) | Inr _ \<Rightarrow> None)]"
  using pool_query_outcome [OF assms] by (auto dest: effect_frame)

lemma insert_batches_stop:
  "\<not> i < length fs \<Longrightarrow> insert_batches eng fs i c w = (Inr c, w)"
  by (simp add: insert_batches.simps)

lemma insert_batches_throw:
  "i < length fs \<Longrightarrow> JNull \<in> set (slice i (i + BATCH_SIZE) fs) \<Longrightarrow>
   insert_batches eng fs i c w = (Inl (Error (null_read ''geometry'')), w)"
  by (subst insert_batches.simps) (simp add: batch_params_null)

lemma insert_batches_skip:
  "i < length fs \<Longrightarrow> JNull \<notin> set (slice i (i + BATCH_SIZE) fs) \<Longrightarrow>
   \<not> has_rows (slice i (i + BATCH_SIZE) fs) \<Longrightarrow>
   insert_batches eng fs i c w = insert_batches eng fs (i + BATCH_SIZE) c w"
  by (subst insert_batches.simps) (simp add: batch_params_ok has_rows_def)

lemma insert_batches_send:
  "i < length fs \<Longrightarrow> JNull \<notin> set (slice i (i + BATCH_SIZE) fs) \<Longrightarrow>
   has_rows (slice i (i + BATCH_SIZE) fs) \<Longrightarrow>
   insert_batches eng fs i c w =
     (case pool_query eng (Insert (params_of (slice i (i + BATCH_SIZE) fs))) w of
        (Inl e, w') \<Rightarrow> (Inl e, w')
      | (Inr x, w') \<Rightarrow>
          insert_batches eng fs (i + BATCH_SIZE) (c + length (slice i (i + BATCH_SIZE) fs)) w')"
  by (subst insert_batches.simps) (simp add: batch_params_ok has_rows_def Let_def)

lemma clean_simps [simp]:
  "clean []"
  "clean ((q, out) # l) = (out = None \<and> clean l)"
  "clean (l @ l') = (clean l \<and> clean l')"
  by (simp_all add: clean_def)

lemma no_rollback_simps [simp]:
  "no_rollback []"
  "no_rollback ((q, out) # l) = (q \<noteq> Rollback \<and> no_rollback l)"
  "no_rollback (l @ l') = (no_rollback l \<and> no_rollback l')"
  by (simp_all add: no_rollback_def)

lemma trace_ok_Nil [simp]: "trace_ok r []"
  by (simp add: trace_ok_def split: sum.splits)

lemma trace_ok_single:
  "trace_ok (Inl e) [(q, Some (message e))]" "trace_ok r [(q, None)]"
  by (simp_all add: trace_ok_def split: sum.splits)

lemma trace_ok_prepend: "trace_ok r l \<Longrightarrow> trace_ok r ((q, None) # l)"
  by (cases l) (auto simp: trace_ok_def split: sum.splits)

lemma trace_ok_snoc_fail: "clean l \<Longrightarrow> trace_ok (Inl e) (l @ [(q, Some (message e))])"
  by (auto simp: trace_ok_def)

lemma clean_not_rejected: "clean l \<Longrightarrow> (q, Some m) \<notin> set l"
  by (auto simp: clean_def list_all_iff)

lemma trace_ok_rejected:
  assumes "trace_ok r l" and "(q, Some m) \<in> set l"
  shows "\<exists>e. r = Inl e \<and> message e = m"
proof -
  from assms(2) have ne: "l \<noteq> []" by auto
  then have l: "l = butlast l @ [last l]" by simp
  from assms(1) have cb: "clean (butlast l)" by (simp add: trace_ok_def)
  with assms(2) l have la: "last l = (q, Some m)"
    using clean_not_rejected [OF cb, of q m] by (metis Un_iff empty_iff empty_set set_ConsD set_append)
  then have nc: "\<not> clean l"
    using l clean_not_rejected [of l q m] assms(2) by blast
  show ?thesis
    using assms(1) nc la by (auto simp: trace_ok_def split: sum.splits)
qed

lemma trace_ok_Inr: "trace_ok (Inr n) l = clean l"
  by (cases l rule: rev_cases) (auto simp: trace_ok_def)

lemma insert_batches_run:
  assumes "insert_batches eng fs i c w = (r, w')"
  shows "files w' = files w \<and> (\<exists>l. qlog w' = qlog w @ l \<and> no_rollback l \<and> trace_ok r l)"
  using assms
proof (induction eng fs i c w rule: insert_batches.induct)
  case (1 eng fs i c w)
  let ?b = "slice i (i + BATCH_SIZE) fs"
  show ?case
  proof (cases "i < length fs")
    case False
    with "1.prems" show ?thesis
      by (auto simp: insert_batches_stop)
  next
    case True
    note lt = this
    show ?thesis
    proof (cases "JNull \<in> set ?b")
      case True
      with lt "1.prems" show ?thesis by (auto simp: insert_batches_throw)
    next
      case False
      note nn = this
      have bp: "batch_params ?b [] = Inr (params_of ?b)"
        using nn by (simp add: batch_params_ok)
      show ?thesis
      proof (cases "has_rows ?b")
        case False
        then have e: "params_of ?b = []" by (simp add: has_rows_def)
        have go: "insert_batches eng fs (i + BATCH_SIZE) c w = (r, w')"
          using "1.prems"(1) insert_batches_skip [OF lt nn False] by simp
        show ?thesis
          using "1.IH"(2) [OF lt refl bp _ go] e by simp
      next
        case True
        note hr = this
        then have ne: "params_of ?b \<noteq> []" by (simp add: has_rows_def)
        obtain r1 w1 where pq: "pool_query eng (Insert (params_of ?b)) w = (r1, w1)"
          by fastforce
        note st = query_step [OF pq]
        show ?thesis
        proof (cases r1)
          case (Inl e)
          with "1.prems"(1) pq have "r = Inl e" "w' = w1"
            by (simp_all add: insert_batches_send [OF lt nn hr])
          then show ?thesis
            using st Inl trace_ok_single(1) [of e] by simp
        next
          case (Inr x)
          with "1.prems"(1) pq have
            go: "insert_batches eng fs (i + BATCH_SIZE) (c + length ?b) w1 = (r, w')"
            by (simp add: insert_batches_send [OF lt nn hr])
          from "1.IH"(1) [OF lt refl bp ne pq [symmetric] Inr go]
          obtain l where l: "files w' = files w1" "qlog w' = qlog w1 @ l" "no_rollback l"
            "trace_ok r l"
            by blast
          have "qlog w' = qlog w @ ((Insert (params_of ?b), None) # l)"
            using l(2) st Inr by simp
          moreover have "no_rollback ((Insert (params_of ?b), None) # l)"
            using l(3) by simp
          moreover have "trace_ok r ((Insert (params_of ?b), None) # l)"
            using l(4) by (rule trace_ok_prepend)
          ultimately show ?thesis
            using l(1) st by (simp del: append.simps)
        qed
      qed
    qed
  qed
qed

lemma insert_batches_done:
  assumes "insert_batches eng fs i c w = (Inr n, w')"
  shows "n = c + sum_list (map length (filter has_rows (batches (drop i fs)))) \<and>
         qlog w' = qlog w @ map (\<lambda>b. (Insert (params_of b), None))
                              (filter has_rows (batches (drop i fs))) \<and>
         JNull \<notin> set (drop i fs)"
  using assms
proof (induction eng fs i c w rule: insert_batches.induct)
  case (1 eng fs i c w)
  let ?b = "slice i (i + BATCH_SIZE) fs"
  show ?case
  proof (cases "i < length fs")
    case False
    with "1.prems" show ?thesis
      by (simp add: insert_batches_stop batches_Nil)
  next
    case True
    note lt = this
    show ?thesis
    proof (cases "JNull \<in> set ?b")
      case True
      with lt "1.prems" show ?thesis by (simp add: insert_batches_throw)
    next
      case False
      note nn = this
      have bp: "batch_params ?b [] = Inr (params_of ?b)"
        using nn by (simp add: batch_params_ok)
      show ?thesis
      proof (cases "has_rows ?b")
        case False
        then have e: "params_of ?b = []" by (simp add: has_rows_def)
        have go: "insert_batches eng fs (i + BATCH_SIZE) c w = (Inr n, w')"
          using "1.prems"(1) insert_batches_skip [OF lt nn False] by simp
        show ?thesis
          using "1.IH"(2) [OF lt refl bp _ go] e False nn
          by (simp add: batches_drop [OF lt] null_in_drop [of i fs])
      next
        case True
        note hr = this
        then have ne: "params_of ?b \<noteq> []" by (simp add: has_rows_def)
        obtain r1 w1 where pq: "pool_query eng (Insert (params_of ?b)) w = (r1, w1)"
          by fastforce
        note st = query_step [OF pq]
        show ?thesis
        proof (cases r1)
          case (Inl e)
          with "1.prems"(1) pq show ?thesis
            by (simp add: insert_batches_send [OF lt nn hr])
        next
          case (Inr x)
          with "1.prems"(1) pq have
            go: "insert_batches eng fs (i + BATCH_SIZE) (c + length ?b) w1 = (Inr n, w')"
            by (simp add: insert_batches_send [OF lt nn hr])
          show ?thesis
            using "1.IH"(1) [OF lt refl bp ne pq [symmetric] Inr go] st Inr hr nn
            by (simp add: batches_drop [OF lt] null_in_drop [of i fs])
        qed
      qed
    qed
  qed
qed

lemma run_no_abort:
  assumes "run eng q w = Inr (x, w0)" and "\<forall>c. sessions w c \<noteq> Some Aborted"
  shows "\<forall>c. sessions w0 c \<noteq> Some Aborted"
  using assms
  by (cases q)
     (auto simp: Let_def split: option.splits session.splits list.splits sum.splits if_splits)

lemma reliable_scheduled: "reliable w \<Longrightarrow> scheduled w = None"
  by (cases "script w") (auto simp: reliable_def scheduled_def)

lemma reliable_next: "reliable w \<Longrightarrow> next_failure w = None"
  by (simp add: next_failure_def reliable_scheduled) (simp add: reliable_def)

lemma reliable_query:
  assumes "reliable w" and "run eng q w = Inr (x, w0)"
  shows "pool_query eng q w = (Inr x, logged q None w0) \<and> reliable (logged q None w0)"
proof -
  from assms(1) have na: "\<forall>c. sessions w c \<noteq> Some Aborted" by (simp add: reliable_def)
  then have e: "effect eng q w = Inr (x, w0)"
    using assms(2) by (simp add: effect_def)
  have s: "list_all (\<lambda>e. snd e = None) (tl (script w))"
    using assms(1) by (cases "script w") (auto simp: reliable_def)
  have "reliable (logged q None w0)"
    using run_no_abort [OF assms(2) na] run_frame [OF assms(2)] s
    by (simp add: reliable_def)
  then show ?thesis
    using e reliable_scheduled [OF assms(1)] by (simp add: pool_query_def)
qed

lemma geom_errors_append: "geom_errors eng (ps @ qs) = geom_errors eng ps @ geom_errors eng qs"
  by (simp add: geom_errors_def)

lemma readable_drop:
  "readable eng (drop i fs) \<longleftrightarrow>
   readable eng (slice i (i + BATCH_SIZE) fs) \<and> readable eng (drop (i + BATCH_SIZE) fs)"
  by (simp add: readable_def params_of_drop [of i fs] geom_errors_append)

lemma insert_batches_reliable:
  assumes "reliable w" and "JNull \<notin> set (drop i fs)" and "readable eng (drop i fs)"
  shows "\<exists>n w'. insert_batches eng fs i c w = (Inr n, w') \<and> reliable w'"
  using assms
proof (induction eng fs i c w rule: insert_batches.induct)
  case (1 eng fs i c w)
  let ?b = "slice i (i + BATCH_SIZE) fs"
  show ?case
  proof (cases "i < length fs")
    case False
    with "1.prems" show ?thesis by (simp add: insert_batches_stop)
  next
    case True
    note lt = this
    from "1.prems"(2) have nn: "JNull \<notin> set ?b" and nr: "JNull \<notin> set (drop (i + BATCH_SIZE) fs)"
      using null_in_drop [of i fs] by simp_all
    from "1.prems"(3) have rb: "readable eng ?b" and rr: "readable eng (drop (i + BATCH_SIZE) fs)"
      using readable_drop [of eng i fs] by simp_all
    have bp: "batch_params ?b [] = Inr (params_of ?b)"
      using nn by (simp add: batch_params_ok)
    show ?thesis
    proof (cases "has_rows ?b")
      case False
      then have e: "params_of ?b = []" by (simp add: has_rows_def)
      show ?thesis
        using "1.IH"(2) [OF lt refl bp _ "1.prems"(1) nr rr] e
          insert_batches_skip [OF lt nn False]
        by simp
    next
      case True
      note hr = this
      then have ne: "params_of ?b \<noteq> []" by (simp add: has_rows_def)
      obtain w0 where ru: "run eng (Insert (params_of ?b)) w = Inr (Done, w0)"
        using rb by (simp add: readable_def)
      note rq = reliable_query [OF "1.prems"(1) ru]
      from rq have pq: "pool_query eng (Insert (params_of ?b)) w =
          (Inr Done, logged (Insert (params_of ?b)) None w0)"
        and r1: "reliable (logged (Insert (params_of ?b)) None w0)"
        by simp_all
      show ?thesis
        using "1.IH"(1) [OF lt refl bp ne pq [symmetric] refl r1 nr rr]
          insert_batches_send [OF lt nn hr, of eng c w] pq
        by simp
    qed
  qed
qed

section \<open>The upload transaction\<close>

lemma read_json_Inr: "read_json p w = Inr data \<longleftrightarrow> files w p = Some (Inr data)"
  by (auto simp: read_json_def split: option.splits sum.splits)

lemma upload_try_Inr_elim:
  assumes "upload_try eng p w = (Inr n, w')"
  obtains data fs w1 w2 w3 x1 x2 x3 where
    "read_json p w = Inr data" "validate data = Inr fs"
    "pool_query eng Begin w = (Inr x1, w1)" "pool_query eng DeleteAll w1 = (Inr x2, w2)"
    "insert_batches eng fs 0 0 w2 = (Inr n, w3)" "pool_query eng Commit w3 = (Inr x3, w')"
  using assms
  by (auto simp: upload_try_def split: sum.splits prod.splits)

lemma upload_try_success:
  assumes "upload_try eng p w = (Inr n, w')"
  shows "\<exists>data fs. files w p = Some (Inr data) \<and> validate data = Inr fs \<and>
           JNull \<notin> set fs \<and> files w' = files w \<and>
           n = sum_list (map length (filter has_rows (batches fs))) \<and>
           qlog w' = qlog w @ (Begin, None) # (DeleteAll, None) #
                       map (\<lambda>b. (Insert (params_of b), None)) (filter has_rows (batches fs)) @
                       [(Commit, None)]"
proof -
  from assms obtain data fs w1 w2 w3 x1 x2 x3 where
    rd: "read_json p w = Inr data" and va: "validate data = Inr fs" and
    b: "pool_query eng Begin w = (Inr x1, w1)" and d: "pool_query eng DeleteAll w1 = (Inr x2, w2)" and
    l: "insert_batches eng fs 0 0 w2 = (Inr n, w3)" and c: "pool_query eng Commit w3 = (Inr x3, w')"
    by (rule upload_try_Inr_elim)
  show ?thesis
    using rd va query_step [OF b] query_step [OF d] insert_batches_done [OF l]
      insert_batches_run [OF l] query_step [OF c]
    by (simp add: read_json_Inr)
qed

lemma upload_try_run:
  assumes "upload_try eng p w = (r, w')"
  shows "files w' = files w \<and> (\<exists>l. qlog w' = qlog w @ l \<and> no_rollback l \<and> trace_ok r l)"
proof (cases "read_json p w")
  case (Inl e)
  with assms show ?thesis by (auto simp: upload_try_def)
next
  case (Inr data)
  note rd = this
  show ?thesis
  proof (cases "validate data")
    case (Inl e)
    with assms rd show ?thesis by (auto simp: upload_try_def)
  next
    case (Inr fs)
    note va = this
    obtain r1 w1 where b: "pool_query eng Begin w = (r1, w1)" by fastforce
    note f1 = query_step [OF b]
    show ?thesis
    proof (cases r1)
      case (Inl e1)
      with assms rd va b have "r = Inl e1" "w' = w1" by (simp_all add: upload_try_def)
      then show ?thesis
        using f1 Inl trace_ok_single(1) [of e1 Begin] by simp
    next
      case (Inr x1)
      note r1 = this
      obtain r2 w2 where d: "pool_query eng DeleteAll w1 = (r2, w2)" by fastforce
      note f2 = query_step [OF d]
      show ?thesis
      proof (cases r2)
        case (Inl e2)
        with assms rd va b r1 d have "r = Inl e2" "w' = w2" by (simp_all add: upload_try_def)
        moreover have "trace_ok (Inl e2 :: js_error + nat)
            [(Begin, None), (DeleteAll, Some (message e2))]"
          by (simp add: trace_ok_def)
        ultimately show ?thesis
          using f1 f2 r1 Inl by simp
      next
        case (Inr x2)
        note r2 = this
        obtain r3 w3 where l: "insert_batches eng fs 0 0 w2 = (r3, w3)" by fastforce
        from insert_batches_run [OF l] obtain l3 where
          g3: "files w3 = files w2" "qlog w3 = qlog w2 @ l3" "no_rollback l3" "trace_ok r3 l3"
          by blast
        show ?thesis
        proof (cases r3)
          case (Inl e3)
          with assms rd va b r1 d r2 l have "r = Inl e3" "w' = w3"
            by (simp_all add: upload_try_def)
          moreover have "trace_ok (Inl e3 :: js_error + nat)
              ((Begin, None) # (DeleteAll, None) # l3)"
            using g3(4) Inl by (auto intro!: trace_ok_prepend)
          ultimately show ?thesis
            using f1 f2 g3 r1 r2 by simp
        next
          case (Inr n)
          note r3 = this
          from g3(4) Inr have c3: "clean l3" by (simp add: trace_ok_Inr)
          obtain r4 w4 where c: "pool_query eng Commit w3 = (r4, w4)" by fastforce
          note f4 = query_step [OF c]
          show ?thesis
          proof (cases r4)
            case (Inl e4)
            with assms rd va b r1 d r2 l r3 c have "r = Inl e4" "w' = w4"
              by (simp_all add: upload_try_def)
            moreover have "trace_ok (Inl e4 :: js_error + nat)
                 ((Begin, None) # (DeleteAll, None) # l3 @ [(Commit, Some (message e4))])"
              using trace_ok_snoc_fail [OF c3, of e4 Commit] by (auto intro!: trace_ok_prepend)
            ultimately show ?thesis
              using f1 f2 g3 f4 r1 r2 Inl by simp
          next
            case (Inr x4)
            with assms rd va b r1 d r2 l r3 c have "r = Inr n" "w' = w4"
              by (simp_all add: upload_try_def)
            moreover have "trace_ok (Inr n :: js_error + nat)
                 ((Begin, None) # (DeleteAll, None) # l3 @ [(Commit, None)])"
              using c3 by (simp add: trace_ok_Inr)
            ultimately show ?thesis
              using f1 f2 g3 f4 r1 r2 Inr by simp
          qed
        qed
      qed
    qed
  qed
qed

lemma upload_try_reliable:
  assumes "reliable w" and "files w p = Some (Inr data)" and "validate data = Inr fs"
    and "JNull \<notin> set fs" and "readable eng fs"
  shows "\<exists>n w'. upload_try eng p w = (Inr n, w')"
proof -
  obtain w0 where rb: "run eng Begin w = Inr (Done, w0)" by simp
  let ?w1 = "logged Begin None w0"
  from reliable_query [OF assms(1) rb] have
    b: "pool_query eng Begin w = (Inr Done, ?w1)" and r1: "reliable ?w1" by simp_all
  obtain v0 where rd: "run eng DeleteAll ?w1 = Inr (Done, v0)" by simp
  let ?w2 = "logged DeleteAll None v0"
  from reliable_query [OF r1 rd] have
    d: "pool_query eng DeleteAll ?w1 = (Inr Done, ?w2)" and r2: "reliable ?w2" by simp_all
  from insert_batches_reliable [OF r2, of 0 fs eng 0] assms(4,5)
  obtain n w3 where l: "insert_batches eng fs 0 0 ?w2 = (Inr n, w3)" and r3: "reliable w3"
    by auto
  obtain u0 where rc: "run eng Commit w3 = Inr (Done, u0)" by simp
  from reliable_query [OF r3 rc] have
    c: "pool_query eng Commit w3 = (Inr Done, logged Commit None u0)" by simp
  have "upload_try eng p w = (Inr n, logged Commit None u0)"
    using assms(2,3) b d l c by (simp add: upload_try_def read_json_def)
  then show ?thesis by blast
qed

section \<open>The handlers\<close>

lemma example_world_parts:
  "reliable (example_world data [])"
  "files (example_world data sc) (uploaded_path ''f1'') = Some (Inr data)"
  "committed (example_world data sc) = [forest_row]"
  "next_id (example_world data sc) = 8"
  "qlog (example_world data sc) = []"
  "script (example_world data sc) = map (Pair 0) sc"
  "sessions (example_world data sc) = (\<lambda>c. None)"
  by (simp_all add: example_world_def pooled_world_def reliable_def uploaded_path_def)

lemma example_world_next:
  "next_client (example_world data sc) = 0"
  "scheduled (example_world data []) = None"
  "scheduled (example_world data (x # sc)) = x"
  "visible (example_world data sc) = [forest_row]"
  by (cases sc)
     (simp_all add: next_client_def scheduled_def visible_def visible_to_def example_world_parts)

lemma validate_collection: "validate (feature_collection fs) = Inr fs"
  by (simp add: validate_def feature_collection_def)

lemma feature_parts:
  "geometry_of (feature t) = Some point" "properties_type (feature t) = Some t"
  "truthy point" "feature t \<noteq> JNull" "JNull \<noteq> feature t"
  by (simp_all add: geometry_of_def properties_type_def feature_def point_def)

lemma row_params_feature: "row_params (feature t) = (if truthy t then [(point, t)] else [])"
  by (simp add: row_params_def feature_parts)

lemma upload_handler_files:
  assumes "upload_handler eng (Some filename) w = (res, w')"
  shows "files w' = (files w)(uploaded_path filename := None)"
proof -
  obtain r w1 where t: "upload_try eng (uploaded_path filename) w = (r, w1)" by fastforce
  from upload_try_run [OF t] have f1: "files w1 = files w" by simp
  show ?thesis
  proof (cases r)
    case (Inr n)
    with assms t f1 show ?thesis by (auto simp: upload_handler_def)
  next
    case (Inl e)
    obtain r2 w2 where rb: "pool_query eng Rollback w1 = (r2, w2)" by fastforce
    from query_step [OF rb] have "files w2 = files w1" by simp
    with assms t f1 Inl rb show ?thesis by (auto simp: upload_handler_def)
  qed
qed

text \<open>
  C8. Upload cleanup: after any upload request that came with a file, whatever the
  outcome (success, a parse or validation error, a rejected statement), the uploaded
  file no longer exists, and no other file has been touched.
\<close>

theorem upload_cleanup:
  "files (snd (upload_handler eng (Some filename) w)) = (files w)(uploaded_path filename := None)"
  using upload_handler_files [of eng filename w] by (cases "upload_handler eng (Some filename) w") simp

theorem upload_cleanup_witness:
  "files (example_world (feature_collection []) []) (uploaded_path ''f1'') \<noteq> None \<and>
   files (snd (upload_handler example_engine (Some ''f1'') (example_world (feature_collection []) [])))
     (uploaded_path ''f1'') = None \<and>
   files (snd (upload_handler example_engine (Some ''f1'') (example_world (JStr ''x'') [])))
     (uploaded_path ''f1'') = None \<and>
   files (snd (upload_handler example_engine (Some ''f1'')
                 (example_world (feature_collection []) [Some ''down''])))
     (uploaded_path ''f1'') = None"
  using upload_cleanup [of example_engine "''f1''" "example_world (feature_collection []) []"]
    upload_cleanup [of example_engine "''f1''" "example_world (JStr ''x'') []"]
    upload_cleanup [of example_engine "''f1''" "example_world (feature_collection []) [Some ''down'']"]
  by (simp add: example_world_def pooled_world_def uploaded_path_def)

lemma upload_handler_ok:
  assumes "upload_try eng (uploaded_path f) w = (Inr n, w1)"
  shows "upload_handler eng (Some f) w =
           (json_ok (JObj [(''message'', JStr (success_message n))]),
            w1\<lparr>files := (files w1)(uploaded_path f := None)\<rparr>)"
  using assms by (simp add: upload_handler_def)

lemma upload_handler_err:
  assumes "upload_try eng (uploaded_path f) w = (Inl e, w1)"
  shows "upload_handler eng (Some f) w =
           (json_error 500 (message_or_fallback e),
            (snd (pool_query eng Rollback w1))
              \<lparr>files := (files (snd (pool_query eng Rollback w1)))(uploaded_path f := None)\<rparr>)"
  using assms by (simp add: upload_handler_def)

lemma upload_handler_200:
  assumes "upload_handler eng (Some f) w = (res, w')" and "status res = 200"
  shows "\<exists>n w1. upload_try eng (uploaded_path f) w = (Inr n, w1) \<and>
           res = json_ok (JObj [(''message'', JStr (success_message n))]) \<and>
           w' = w1\<lparr>files := (files w1)(uploaded_path f := None)\<rparr>"
proof -
  obtain r w1 where t: "upload_try eng (uploaded_path f) w = (r, w1)" by fastforce
  show ?thesis
  proof (cases r)
    case (Inl e)
    with assms t show ?thesis by (auto simp: upload_handler_err json_error_def)
  next
    case (Inr n)
    with assms t show ?thesis by (auto simp: upload_handler_ok)
  qed
qed

lemma set_batches: "b \<in> set (batches fs) \<Longrightarrow> set b \<subseteq> set fs"
  by (auto simp: batches_def slice_def dest: in_set_takeD in_set_dropD)


lemma concat_batches: "concat (batches xs) = xs"
proof (induction "length xs" arbitrary: xs rule: less_induct)
  case less
  show ?case
  proof (cases "xs = []")
    case True
    then show ?thesis by (simp add: batches_Nil)
  next
    case False
    then have "length (drop BATCH_SIZE xs) < length xs"
      by (simp add: BATCH_SIZE_def)
    then have "concat (batches (drop BATCH_SIZE xs)) = drop BATCH_SIZE xs"
      by (rule less)
    then show ?thesis
      by (simp add: batches_step [OF False])
  qed
qed

lemma params_of_Nil_iff: "params_of fs = [] \<longleftrightarrow> (\<forall>x \<in> set fs. row_params x = [])"
  by (auto simp: params_of_def)

lemma no_rows_batches:
  assumes "params_of fs = []"
  shows "filter has_rows (batches fs) = []"
proof -
  have "\<not> has_rows b" if "b \<in> set (batches fs)" for b
    using set_batches [OF that] assms by (auto simp: has_rows_def params_of_Nil_iff)
  then show ?thesis by (simp add: filter_empty_conv)
qed

lemma truthy_non_null: "defined_truthy v \<Longrightarrow> non_null v"
  by (cases v) (auto simp: defined_truthy_def non_null_def)

lemma row_params_absent:
  "\<not> (non_null (geometry_of x) \<and> non_null (properties_type x)) \<Longrightarrow> row_params x = []"
  using truthy_non_null by (auto simp: row_params_insertable insertable_def)

lemma dec_0: "dec 0 = ''0''"
  by (simp add: dec.simps digit_char_def char_of_eval)

lemma length_params_of: "length (params_of fs) = length (filter insertable fs)"
  by (induction fs) (auto simp: params_of_def row_params_insertable)


lemma upload_ok_run:
  assumes "upload_handler eng (Some f) w = (res, w')" and "status res = 200"
    and "files w (uploaded_path f) = Some (Inr data)" and "validate data = Inr fs"
  shows "res = json_ok (JObj [(''message'', JStr (success_message
                  (sum_list (map length (filter has_rows (batches fs))))))]) \<and>
         JNull \<notin> set fs \<and>
         new_log w w' = (Begin, None) # (DeleteAll, None) #
                       map (\<lambda>b. (Insert (params_of b), None)) (filter has_rows (batches fs)) @
                       [(Commit, None)]"
proof -
  from upload_handler_200 [OF assms(1,2)] obtain n w1 where
    t: "upload_try eng (uploaded_path f) w = (Inr n, w1)" and
    r: "res = json_ok (JObj [(''message'', JStr (success_message n))])"
       "w' = w1\<lparr>files := (files w1)(uploaded_path f := None)\<rparr>"
    by blast
  from upload_try_success [OF t] assms(3,4) have
    s: "n = sum_list (map length (filter has_rows (batches fs)))" "JNull \<notin> set fs"
       "qlog w1 = qlog w @ (Begin, None) # (DeleteAll, None) #
                       map (\<lambda>b. (Insert (params_of b), None)) (filter has_rows (batches fs)) @
                       [(Commit, None)]"
    by auto
  show ?thesis
    using s r by (simp add: new_log_def)
qed

lemma upload_reliable_run:
  assumes "reliable w" and "files w (uploaded_path f) = Some (Inr data)"
    and "validate data = Inr fs" and "JNull \<notin> set fs" and "readable eng fs"
    and "upload_handler eng (Some f) w = (res, w')"
  shows "res = json_ok (JObj [(''message'', JStr (success_message
                  (sum_list (map length (filter has_rows (batches fs))))))]) \<and>
         new_log w w' = (Begin, None) # (DeleteAll, None) #
                       map (\<lambda>b. (Insert (params_of b), None)) (filter has_rows (batches fs)) @
                       [(Commit, None)]"
proof -
  from upload_try_reliable [OF assms(1-5)] obtain n w1 where
    t: "upload_try eng (uploaded_path f) w = (Inr n, w1)" by blast
  from upload_handler_ok [OF t] assms(6) have "status res = 200"
    by (auto simp: json_ok_def)
  from upload_ok_run [OF assms(6) this assms(2,3)] show ?thesis by simp
qed

text \<open>
  C10. A label that is present but falsy: a feature whose \<^verbatim>\<open>properties.type\<close> is the
  empty string, 0 or false pushes no parameters, exactly like a feature without the
  label; whenever a feature does push a pair, its label is the feature's
  \<^verbatim>\<open>properties.type\<close> and it is truthy, so every label a batch sends is truthy.
\<close>

theorem falsy_label_skipped:
  "(properties_type f \<in> {Some (JStr []), Some (JNum 0), Some (JBool False)}
      \<longrightarrow> feature_params f = Inr None) \<and>
   (f \<noteq> JNull \<and> properties_type f = None \<longrightarrow> feature_params f = Inr None) \<and>
   (feature_params f = Inr (Some (g, t)) \<longrightarrow> properties_type f = Some t \<and> truthy t) \<and>
   (batch_params fs [] = Inr ps \<longrightarrow> (\<forall>p \<in> set ps. truthy (snd p)))"
proof -
  have 1: "feature_params f = Inr None"
    if "properties_type f \<in> {Some (JStr []), Some (JNum 0), Some (JBool False)}"
  proof -
    from that have "f \<noteq> JNull" by (auto simp: properties_type_def)
    from feature_params_row [OF this] that show ?thesis
      by (auto simp: row_params_def split: option.splits)
  qed
  have 2: "feature_params f = Inr None" if "f \<noteq> JNull" "properties_type f = None"
    using feature_params_row [OF that(1)] that(2)
    by (auto simp: row_params_def split: option.splits)
  have 3: "properties_type f = Some t \<and> truthy t" if "feature_params f = Inr (Some (g, t))"
  proof -
    from that have "f \<noteq> JNull" by (auto simp: feature_params_null)
    from feature_params_row [OF this] that show ?thesis
      by (auto simp: row_params_def split: option.splits if_splits list.splits)
  qed
  have 4: "\<forall>p \<in> set ps. truthy (snd p)" if "batch_params fs [] = Inr ps"
  proof -
    have "JNull \<notin> set fs"
      using that batch_params_null [of fs "[]"] by auto
    then have "ps = params_of fs"
      using that batch_params_ok [of fs "[]"] by simp
    then show ?thesis
      by (auto simp: params_of_def row_params_def split: option.splits if_splits)
  qed
  from 1 2 3 4 show ?thesis by blast
qed

theorem falsy_label_skipped_witness:
  "properties_type (feature (JStr [])) = Some (JStr []) \<and>
   feature_params (feature (JStr [])) = Inr None \<and>
   properties_type (feature (JNum 0)) = Some (JNum 0) \<and>
   feature_params (feature (JNum 0)) = Inr None \<and>
   properties_type (feature (JBool False)) = Some (JBool False) \<and>
   feature_params (feature (JBool False)) = Inr None \<and>
   properties_type (JObj [(''geometry'', point)]) = None \<and>
   feature_params (JObj [(''geometry'', point)]) = Inr None \<and>
   feature_params (feature (JStr ''Forest'')) = Inr (Some (point, JStr ''Forest'')) \<and>
   truthy (JStr ''Forest'') \<and>
   batch_params [feature (JStr []), feature (JStr ''Forest'')] [] = Inr [(point, JStr ''Forest'')]"
proof -
  have a: "properties_type (feature t) = Some t" for t
    by (simp add: properties_type_def feature_def)
  have b: "properties_type (JObj [(''geometry'', point)]) = None"
    by (simp add: properties_type_def)
  have g: "get_prop (feature t) ''geometry'' = Inr (Some point)" for t
    by (simp add: feature_def)
  have tp: "truthy point"
    by (simp add: point_def)
  have c: "feature_params (feature (JStr ''Forest'')) = Inr (Some (point, JStr ''Forest''))"
    by (simp add: feature_params_def a g tp or_null_def)
  have d: "batch_params [feature (JStr []), feature (JStr ''Forest'')] [] = Inr [(point, JStr ''Forest'')]"
    by (simp add: feature_params_def a g tp or_null_def)
  have s1: "feature_params (feature (JStr [])) = Inr None"
    using falsy_label_skipped [of "feature (JStr [])" point "JStr []" "[]" "[]"]
    by (simp only: a) simp
  have s2: "feature_params (feature (JNum 0)) = Inr None"
    using falsy_label_skipped [of "feature (JNum 0)" point "JNum 0" "[]" "[]"]
    by (simp only: a) simp
  have s3: "feature_params (feature (JBool False)) = Inr None"
    using falsy_label_skipped [of "feature (JBool False)" point "JBool False" "[]" "[]"]
    by (simp only: a) simp
  have s4: "feature_params (JObj [(''geometry'', point)]) = Inr None"
    using falsy_label_skipped [of "JObj [(''geometry'', point)]" point "JNull" "[]" "[]"]
    by (simp only: b) simp
  have s5: "truthy (JStr ''Forest'')"
    using falsy_label_skipped [of "feature (JStr ''Forest'')" point "JStr ''Forest''" "[]" "[]"] c
    by blast
  show ?thesis
    by (intro conjI a b s1 s2 s3 s4 s5 c d)
qed

section \<open>The read endpoints\<close>




section \<open>Database errors\<close>

lemma query_new_log:
  assumes "pool_query eng q w = (r, w1)"
  shows "new_log w w1 = [(q, case r of Inl e \<Rightarrow> Some (message e) | Inr _ \<Rightarrow> None)]"
  using query_step [OF assms] by (simp add: new_log_def)

lemma effect_page:
  assumes "effect eng (SelectPage flt ofs lmt) w = Inr (x, w0)"
  shows "\<exists>g. x = Geojson g"
  using assms by (auto simp: effect_def split: if_splits sum.splits)

lemma effect_area:
  assumes "effect eng (SelectArea ty) w = Inr (x, w0)"
  shows "\<exists>c t. x = Aggregate c t"
  using assms by (auto simp: effect_def Let_def split: if_splits)

lemma land_use_rejected:
  assumes "(q, Some m) \<in> set (new_log w (snd (land_use_handler eng ql qo w)))"
  shows "fst (land_use_handler eng ql qo w) = json_error 500 ''Database error fetching land use''"
proof -
  let ?q = "SelectPage None (or_default (parse_param qo) 0) (or_default (parse_param ql) 1000)"
  obtain r w1 where p: "pool_query eng ?q w = (r, w1)" by fastforce
  show ?thesis
  proof (cases r)
    case (Inl e)
    with p show ?thesis by (simp add: land_use_handler_def)
  next
    case (Inr x)
    from pool_query_outcome [OF p] Inr obtain w0 where
      "effect eng ?q w = Inr (x, w0)" by auto
    then obtain g where "x = Geojson g" using effect_page by blast
    with p Inr assms query_new_log [OF p] show ?thesis
      by (simp add: land_use_handler_def)
  qed
qed

lemma filter_rejected:
  assumes "(q, Some m) \<in> set (new_log w (snd (filter_handler eng ty ql qo w)))"
  shows "fst (filter_handler eng ty ql qo w) = json_error 500 ''Database error filtering land use''"
proof -
  let ?q = "SelectPage (Some ty) (or_default (parse_param qo) 0) (or_default (parse_param ql) 1000)"
  obtain r w1 where p: "pool_query eng ?q w = (r, w1)" by fastforce
  show ?thesis
  proof (cases r)
    case (Inl e)
    with p show ?thesis by (simp add: filter_handler_def)
  next
    case (Inr x)
    from pool_query_outcome [OF p] Inr obtain w0 where
      "effect eng ?q w = Inr (x, w0)" by auto
    then obtain g where "x = Geojson g" using effect_page by blast
    with p Inr assms query_new_log [OF p] show ?thesis
      by (simp add: filter_handler_def split: if_splits)
  qed
qed

lemma area_rejected:
  assumes "(q, Some m) \<in> set (new_log w (snd (area_handler eng ty w)))"
  shows "fst (area_handler eng ty w) = json_error 500 ''Database error calculating area''"
proof -
  obtain r w1 where p: "pool_query eng (SelectArea ty) w = (r, w1)" by fastforce
  show ?thesis
  proof (cases r)
    case (Inl e)
    with p show ?thesis by (simp add: area_handler_def)
  next
    case (Inr x)
    from pool_query_outcome [OF p] Inr obtain w0 where
      "effect eng (SelectArea ty) w = Inr (x, w0)" by auto
    then obtain c t where "x = Aggregate c t" using effect_area by blast
    with p Inr assms query_new_log [OF p] show ?thesis
      by (simp add: area_handler_def Let_def split: if_splits)
  qed
qed

lemma upload_rejected:
  assumes "(q, Some m) \<in> set (new_log w (snd (upload_handler eng (Some f) w)))"
    and "q \<noteq> Rollback"
  shows "fst (upload_handler eng (Some f) w) = json_error 500 (message_or_fallback (Error m))"
proof -
  obtain r w1 where t: "upload_try eng (uploaded_path f) w = (r, w1)" by fastforce
  from upload_try_run [OF t] obtain l where
    l: "qlog w1 = qlog w @ l" "no_rollback l" "trace_ok r l" by blast
  show ?thesis
  proof (cases r)
    case (Inr n)
    with l(3) have "clean l" by (simp add: trace_ok_Inr)
    moreover have "new_log w (snd (upload_handler eng (Some f) w)) = l"
      using t Inr l(1) by (simp add: upload_handler_ok new_log_def)
    ultimately show ?thesis
      using assms(1) clean_not_rejected by fastforce
  next
    case (Inl e)
    obtain r2 w2 where rb: "pool_query eng Rollback w1 = (r2, w2)" by fastforce
    from query_step [OF rb] obtain out where "qlog w2 = qlog w1 @ [(Rollback, out)]"
      by blast
    then have "new_log w (snd (upload_handler eng (Some f) w)) = l @ [(Rollback, out)]"
      using t Inl l(1) rb by (simp add: upload_handler_err new_log_def)
    with assms have "(q, Some m) \<in> set l" by auto
    from trace_ok_rejected [OF l(3) this] Inl have "message e = m" by simp
    then have "e = Error m" by (cases e) simp
    then show ?thesis
      using t Inl by (simp add: upload_handler_err)
  qed
qed

text \<open>
  C7, as stated, fails: when the query of GET /api/land\_use is rejected with the message
  \<^verbatim>\<open>connection refused\<close>, the response carries the handler's own fixed text and not the
  message of the error.
\<close>

theorem db_error_counterexample:
  "fst (land_use_handler example_engine None None (example_world JNull [Some ''connection refused''])) =
     json_error 500 ''Database error fetching land use'' \<and>
   qlog (snd (land_use_handler example_engine None None
                (example_world JNull [Some ''connection refused'']))) =
     [(SelectPage None 0 1000, Some ''connection refused'')]"
  by (simp add: land_use_handler_def parse_param_def or_default_def pool_query_def
      example_world_next example_world_parts)

text \<open>
  C7, amended. Whenever a statement of a request is rejected with message \<open>m\<close>, the
  response is 500 with a JSON error field: the three GET handlers answer with their own
  fixed text, whatever \<open>m\<close> is; the upload handler (for a statement other than the
  ROLLBACK of its catch block) answers with \<open>m\<close> itself, or with its fixed fallback
  text when \<open>m\<close> is empty.
\<close>

theorem db_error_response:
  "((q, Some m) \<in> set (new_log w (snd (land_use_handler eng ql qo w))) \<longrightarrow>
      fst (land_use_handler eng ql qo w) = json_error 500 ''Database error fetching land use'') \<and>
   ((q, Some m) \<in> set (new_log w (snd (filter_handler eng ty ql qo w))) \<longrightarrow>
      fst (filter_handler eng ty ql qo w) = json_error 500 ''Database error filtering land use'') \<and>
   ((q, Some m) \<in> set (new_log w (snd (area_handler eng ty w))) \<longrightarrow>
      fst (area_handler eng ty w) = json_error 500 ''Database error calculating area'') \<and>
   ((q, Some m) \<in> set (new_log w (snd (upload_handler eng (Some f) w))) \<and> q \<noteq> Rollback \<longrightarrow>
      fst (upload_handler eng (Some f) w) =
        json_error 500 (if m = [] then ''Failed to upload and save GeoJSON'' else m))"
  using land_use_rejected [of q m w eng ql qo] filter_rejected [of q m w eng ty ql qo]
    area_rejected [of q m w eng ty] upload_rejected [of q m w eng f]
  by (simp add: message_or_fallback_def fallback_message_def)

lemma upload_fail_eval:
  "upload_handler example_engine (Some ''f1'')
      (example_world (feature_collection []) [None, Some m, out]) =
   (json_error 500 (message_or_fallback (Error m)),
    \<lparr>committed = [forest_row],
     sessions = (\<lambda>c. if c = 0 \<and> out \<noteq> None then Some Aborted else None),
     next_id = 8, script = [],
     qlog = [(Begin, None), (DeleteAll, Some m), (Rollback, out)],
     files = (\<lambda>p. None)\<rparr>)"
  by (cases out)
     (auto simp: upload_handler_def upload_try_def read_json_def validate_collection
      pool_query_def effect_def scheduled_def next_client_def abort_open_def set_session_def
      logged_def example_world_def pooled_world_def uploaded_path_def fun_eq_iff Let_def)

theorem db_error_response_witness:
  "(SelectPage None 0 1000, Some ''connection refused'') \<in>
      set (new_log (example_world JNull [Some ''connection refused''])
             (snd (land_use_handler example_engine None None
                     (example_world JNull [Some ''connection refused''])))) \<and>
   fst (land_use_handler example_engine None None (example_world JNull [Some ''connection refused''])) =
      json_error 500 ''Database error fetching land use'' \<and>
   (SelectPage (Some ''park'') 0 1000, Some ''connection refused'') \<in>
      set (new_log (example_world JNull [Some ''connection refused''])
             (snd (filter_handler example_engine ''park'' None None
                     (example_world JNull [Some ''connection refused''])))) \<and>
   fst (filter_handler example_engine ''park'' None None
          (example_world JNull [Some ''connection refused''])) =
      json_error 500 ''Database error filtering land use'' \<and>
   (SelectArea ''park'', Some ''connection refused'') \<in>
      set (new_log (example_world JNull [Some ''connection refused''])
             (snd (area_handler example_engine ''park''
                     (example_world JNull [Some ''connection refused''])))) \<and>
   fst (area_handler example_engine ''park'' (example_world JNull [Some ''connection refused''])) =
      json_error 500 ''Database error calculating area'' \<and>
   (DeleteAll, Some ''deadlock detected'') \<in>
      set (new_log (example_world (feature_collection []) [None, Some ''deadlock detected'', None])
             (snd (upload_handler example_engine (Some ''f1'')
                     (example_world (feature_collection []) [None, Some ''deadlock detected'', None])))) \<and>
   fst (upload_handler example_engine (Some ''f1'')
          (example_world (feature_collection []) [None, Some ''deadlock detected'', None])) =
      json_error 500 ''deadlock detected''"
proof -
  let ?w = "example_world JNull [Some ''connection refused'']"
  let ?u = "example_world (feature_collection []) [None, Some ''deadlock detected'', None]"
  have a: "(SelectPage None 0 1000, Some ''connection refused'') \<in>
      set (new_log ?w (snd (land_use_handler example_engine None None ?w)))"
    by (simp add: land_use_handler_def parse_param_def or_default_def pool_query_def
        example_world_next example_world_parts new_log_def)
  have b: "(SelectPage (Some ''park'') 0 1000, Some ''connection refused'') \<in>
      set (new_log ?w (snd (filter_handler example_engine ''park'' None None ?w)))"
    by (simp add: filter_handler_def parse_param_def or_default_def pool_query_def
        example_world_next example_world_parts new_log_def)
  have c: "(SelectArea ''park'', Some ''connection refused'') \<in>
      set (new_log ?w (snd (area_handler example_engine ''park'' ?w)))"
    by (simp add: area_handler_def pool_query_def example_world_next example_world_parts new_log_def)
  have d: "(DeleteAll, Some ''deadlock detected'') \<in>
      set (new_log ?u (snd (upload_handler example_engine (Some ''f1'') ?u)))"
    by (simp add: upload_fail_eval new_log_def example_world_parts)
  show ?thesis
    using a b c d
      db_error_response [of "SelectPage None 0 1000" "''connection refused''" ?w example_engine
        None None "''park''" "''f1''"]
      db_error_response [of "SelectPage (Some ''park'') 0 1000" "''connection refused''" ?w
        example_engine None None "''park''" "''f1''"]
      db_error_response [of "SelectArea ''park''" "''connection refused''" ?w example_engine
        None None "''park''" "''f1''"]
      db_error_response [of DeleteAll "''deadlock detected''" ?u example_engine
        None None "''park''" "''f1''"]
    by simp
qed

section \<open>Uploads served by one client\<close>













section \<open>The count a successful upload reports\<close>


lemma from_geojson_point: "from_geojson example_engine point = Inr point"
  by (simp add: example_engine_def point_def)


lemma dec_small: "dec 0 = ''0''" "dec 3 = ''3''"
  by (simp_all add: dec.simps digit_char_def char_of_eval)



section \<open>The upload's statements and its error handling\<close>

text \<open>
  C1, as stated, fails. When the DELETE of an upload is rejected with an empty message,
  the rollback is sent and the response is 500, but it carries the fallback text and
  not the (empty) message of the original error. And the statements of one upload are
  not bound to one client of the pool: when the pool serves BEGIN on client 0 and DELETE
  on client 1, and the INSERT is rejected, the DELETE has been committed at once, the
  rollback finds nothing to undo, and the table, which held one row, ends empty: neither
  in its state before the upload nor replaced by the uploaded feature.
\<close>

theorem upload_atomic_counterexample:
  "fst (upload_handler example_engine (Some ''f1'')
          (example_world (feature_collection []) [None, Some [], None])) =
     json_error 500 ''Failed to upload and save GeoJSON'' \<and>
   qlog (snd (upload_handler example_engine (Some ''f1'')
          (example_world (feature_collection []) [None, Some [], None]))) =
     [(Begin, None), (DeleteAll, Some []), (Rollback, None)] \<and>
   committed (pooled_world (feature_collection [feature (JStr ''Park'')])
                [(0, None), (1, None), (0, Some ''disk full'')]) = [forest_row] \<and>
   fst (upload_handler example_engine (Some ''f1'')
          (pooled_world (feature_collection [feature (JStr ''Park'')])
             [(0, None), (1, None), (0, Some ''disk full'')])) =
     json_error 500 ''disk full'' \<and>
   qlog (snd (upload_handler example_engine (Some ''f1'')
          (pooled_world (feature_collection [feature (JStr ''Park'')])
             [(0, None), (1, None), (0, Some ''disk full'')]))) =
     [(Begin, None), (DeleteAll, None),
      (Insert [(point, JStr ''Park'')], Some ''disk full''), (Rollback, None)] \<and>
   committed (snd (upload_handler example_engine (Some ''f1'')
          (pooled_world (feature_collection [feature (JStr ''Park'')])
             [(0, None), (1, None), (0, Some ''disk full'')]))) = []"
proof -
  let ?fs = "[feature (JStr ''Park'')]"
  have sl: "slice 0 (0 + BATCH_SIZE) ?fs = ?fs"
    by (simp add: slice_def BATCH_SIZE_def)
  have po: "params_of ?fs = [(point, JStr ''Park'')]"
    by (simp add: params_of_def row_params_feature)
  have ib: "insert_batches example_engine ?fs 0 0 w =
      (case pool_query example_engine (Insert [(point, JStr ''Park'')]) w of
         (Inl e, w') \<Rightarrow> (Inl e, w')
       | (Inr x, w') \<Rightarrow> insert_batches example_engine ?fs (0 + BATCH_SIZE) (0 + length ?fs) w')"
    for w
    using insert_batches_send [of 0 ?fs example_engine 0 w]
    by (simp only: sl po) (simp add: feature_parts has_rows_def po)
  have s: "upload_handler example_engine (Some ''f1'')
      (pooled_world (feature_collection ?fs) [(0, None), (1, None), (0, Some ''disk full'')]) =
     (json_error 500 ''disk full'',
      \<lparr>committed = [], sessions = (\<lambda>c. None), next_id = 8, script = [],
       qlog = [(Begin, None), (DeleteAll, None),
               (Insert [(point, JStr ''Park'')], Some ''disk full''), (Rollback, None)],
       files = (\<lambda>p. None)\<rparr>)"
    by (auto simp: upload_handler_def upload_try_def read_json_def validate_collection ib
        pool_query_def effect_def scheduled_def next_client_def abort_open_def set_session_def
        logged_def pooled_world_def uploaded_path_def fun_eq_iff Let_def
        message_or_fallback_def)
  have c: "committed (pooled_world (feature_collection ?fs)
                [(0, None), (1, None), (0, Some ''disk full'')]) = [forest_row]"
    by (simp add: pooled_world_def)
  show ?thesis
    unfolding s using c
    by (simp add: upload_fail_eval message_or_fallback_def fallback_message_def)
qed

text \<open>
  C1, amended. For every upload request with a file: if the \<^verbatim>\<open>try\<close> block completes,
  the response is 200 and the statements sent, all accepted, are BEGIN, DELETE, one
  INSERT for each batch of the file's features with an insertable row, and COMMIT, in
  this order; if it throws \<open>e\<close> (at any step), a ROLLBACK is sent as the last statement,
  only statements before it having been sent and none but the last of them rejected,
  and whatever the outcome of that ROLLBACK the response is 500 with the message of
  \<open>e\<close>, or with the fixed fallback text when that message is empty.
\<close>

theorem upload_rollback_response:
  assumes "upload_handler eng (Some f) w = (res, w')"
  shows "case fst (upload_try eng (uploaded_path f) w) of
           Inr n \<Rightarrow>
             res = json_ok (JObj [(''message'', JStr (success_message n))]) \<and>
             (\<exists>data fs. files w (uploaded_path f) = Some (Inr data) \<and>
                validate data = Inr fs \<and>
                new_log w w' =
                  (Begin, None) # (DeleteAll, None) #
                  map (\<lambda>b. (Insert (params_of b), None)) (filter has_rows (batches fs)) @
                  [(Commit, None)])
         | Inl e \<Rightarrow>
             res = json_error 500
                     (if message e = [] then ''Failed to upload and save GeoJSON'' else message e) \<and>
             (\<exists>l out. new_log w w' = l @ [(Rollback, out)] \<and> no_rollback l \<and>
                       trace_ok (Inl e :: js_error + nat) l)"
proof -
  obtain r w1 where t: "upload_try eng (uploaded_path f) w = (r, w1)" by fastforce
  show ?thesis
  proof (cases r)
    case (Inr n)
    note t' = t [unfolded Inr]
    from upload_handler_ok [OF t'] assms have
      r: "res = json_ok (JObj [(''message'', JStr (success_message n))])"
         "w' = w1\<lparr>files := (files w1)(uploaded_path f := None)\<rparr>"
      by simp_all
    from upload_try_success [OF t'] obtain data fs where
      d: "files w (uploaded_path f) = Some (Inr data)" "validate data = Inr fs" and
      q: "qlog w1 = qlog w @ (Begin, None) # (DeleteAll, None) #
                       map (\<lambda>b. (Insert (params_of b), None)) (filter has_rows (batches fs)) @
                       [(Commit, None)]"
      by blast
    from q have "new_log w w' = (Begin, None) # (DeleteAll, None) #
                       map (\<lambda>b. (Insert (params_of b), None)) (filter has_rows (batches fs)) @
                       [(Commit, None)]"
      using r(2) by (simp add: new_log_def)
    with d show ?thesis
      using t Inr r(1) by auto
  next
    case (Inl e)
    note t' = t [unfolded Inl]
    from upload_try_run [OF t'] obtain l where
      l: "qlog w1 = qlog w @ l" "no_rollback l" "trace_ok (Inl e :: js_error + nat) l"
      by blast
    obtain r2 w2 where rb: "pool_query eng Rollback w1 = (r2, w2)" by fastforce
    from query_step [OF rb] obtain out where
      o: "qlog w2 = qlog w1 @ [(Rollback, out)]"
      by blast
    from upload_handler_err [OF t'] assms rb have
      r: "res = json_error 500 (message_or_fallback e)"
         "w' = w2\<lparr>files := (files w2)(uploaded_path f := None)\<rparr>"
      by simp_all
    have n: "new_log w w' = l @ [(Rollback, out)]"
      using r(2) o l(1) by (simp add: new_log_def)
    show ?thesis
      using t Inl r l n by (auto simp: message_or_fallback_def fallback_message_def)
  qed
qed

theorem upload_rollback_response_witness:
  "fst (upload_try example_engine (uploaded_path ''f1'')
      (example_world (feature_collection []) [None, Some ''disk full'', Some ''gone''])) =
     Inl (Error ''disk full'') \<and>
   fst (upload_handler example_engine (Some ''f1'')
      (example_world (feature_collection []) [None, Some ''disk full'', Some ''gone''])) =
     json_error 500 ''disk full'' \<and>
   qlog (snd (upload_handler example_engine (Some ''f1'')
      (example_world (feature_collection []) [None, Some ''disk full'', Some ''gone'']))) =
     [(Begin, None), (DeleteAll, Some ''disk full''), (Rollback, Some ''gone'')] \<and>
   fst (upload_try example_engine (uploaded_path ''f1'')
      (example_world (feature_collection []) [])) = Inr 0 \<and>
   fst (upload_handler example_engine (Some ''f1'')
      (example_world (feature_collection []) [])) =
     json_ok (JObj [(''message'', JStr (success_message 0))])"
proof -
  let ?w = "example_world (feature_collection []) [None, Some ''disk full'', Some ''gone'']"
  let ?v = "example_world (feature_collection []) []"
  have t: "fst (upload_try example_engine (uploaded_path ''f1'') ?w) = Inl (Error ''disk full'')"
    by (auto simp: upload_try_def read_json_def validate_collection
      pool_query_def effect_def scheduled_def next_client_def abort_open_def set_session_def
      logged_def example_world_def pooled_world_def uploaded_path_def)
  obtain res w' where h: "upload_handler example_engine (Some ''f1'') ?w = (res, w')"
    by fastforce
  from upload_rollback_response [OF h] t
  have r: "res = json_error 500 ''disk full''"
    by simp
  have q: "qlog w' = [(Begin, None), (DeleteAll, Some ''disk full''), (Rollback, Some ''gone'')]"
    using h by (auto simp: upload_fail_eval)
  from upload_try_reliable [OF example_world_parts(1,2) validate_collection, of "[]" example_engine]
  obtain n v1 where t2: "upload_try example_engine (uploaded_path ''f1'') ?v = (Inr n, v1)"
    by (auto simp: readable_def params_of_def geom_errors_def)
  from upload_try_success [OF t2] have n: "n = 0"
    by (auto simp: example_world_parts validate_collection batches_Nil)
  obtain res2 v' where h2: "upload_handler example_engine (Some ''f1'') ?v = (res2, v')"
    by fastforce
  from upload_rollback_response [OF h2] t2 n
  have r2: "res2 = json_ok (JObj [(''message'', JStr (success_message 0))])"
    by simp
  show ?thesis
    using t r q h t2 n r2 h2 by simp
qed

lemma inserted_simps:
  "inserted [] = []"
  "inserted ((Insert ps, out) # l) = ps @ inserted l"
  "inserted ((Begin, out) # l) = inserted l"
  "inserted ((DeleteAll, out) # l) = inserted l"
  "inserted ((Commit, out) # l) = inserted l"
  "inserted ((Rollback, out) # l) = inserted l"
  "inserted (l @ l') = inserted l @ inserted l'"
  by (simp_all add: inserted_def)

lemma inserted_batches:
  "inserted (map (\<lambda>b. (Insert (params_of b), None)) (filter has_rows bs)) = params_of (concat bs)"
  by (induction bs) (simp_all add: inserted_simps has_rows_def params_of_def)

lemma inserted_success:
  "inserted ((Begin, None) # (DeleteAll, None) #
             map (\<lambda>b. (Insert (params_of b), None)) (filter has_rows (batches fs)) @
             [(Commit, None)]) = params_of fs"
  by (simp add: inserted_simps inserted_batches concat_batches)

lemma clean_success:
  "clean ((Begin, None) # (DeleteAll, None) #
          map (\<lambda>b. (Insert (params_of b), None)) (filter has_rows (batches fs)) @
          [(Commit, None)])"
  by (simp add: clean_def list_all_iff)

lemma one_batch:
  assumes "length fs \<le> 500"
  shows "slice 0 (0 + BATCH_SIZE) fs = fs" and "slice 0 BATCH_SIZE fs = fs"
  using assms by (simp_all add: slice_def BATCH_SIZE_def)

section \<open>Which features an upload inserts\<close>

text \<open>
  C2, as stated, fails. A feature whose geometry and \<^verbatim>\<open>properties.type\<close> are both
  non-null, the label being the empty string, is uploaded with every statement accepted:
  the upload succeeds and no INSERT is sent. A feature with a geometry and the label
  \<^verbatim>\<open>Park\<close>, uploaded together with a \<^verbatim>\<open>null\<close> element, contributes no row either: the
  \<^verbatim>\<open>null\<close> throws, no INSERT is sent and the response is 500. So does a feature with the
  label \<^verbatim>\<open>Park\<close> whose geometry is \<^verbatim>\<open>true\<close>: the database rejects the INSERT.
\<close>

theorem upload_skip_rule_counterexample:
  "non_null (geometry_of (feature (JStr []))) \<and> non_null (properties_type (feature (JStr []))) \<and>
   status (fst (upload_handler example_engine (Some ''f1'')
       (example_world (feature_collection [feature (JStr [])]) []))) = 200 \<and>
   qlog (snd (upload_handler example_engine (Some ''f1'')
       (example_world (feature_collection [feature (JStr [])]) []))) =
     [(Begin, None), (DeleteAll, None), (Commit, None)] \<and>
   committed (snd (upload_handler example_engine (Some ''f1'')
       (example_world (feature_collection [feature (JStr [])]) []))) = [] \<and>
   non_null (geometry_of (feature (JStr ''Park''))) \<and>
   non_null (properties_type (feature (JStr ''Park''))) \<and>
   fst (upload_handler example_engine (Some ''f1'')
       (example_world (feature_collection [feature (JStr ''Park''), JNull]) [])) =
     json_error 500 (null_read ''geometry'') \<and>
   qlog (snd (upload_handler example_engine (Some ''f1'')
       (example_world (feature_collection [feature (JStr ''Park''), JNull]) []))) =
     [(Begin, None), (DeleteAll, None), (Rollback, None)] \<and>
   committed (snd (upload_handler example_engine (Some ''f1'')
       (example_world (feature_collection [feature (JStr ''Park''), JNull]) []))) =
     [forest_row] \<and>
   non_null (geometry_of (JObj [(''geometry'', JBool True),
                                (''properties'', JObj [(''type'', JStr ''Park'')])])) \<and>
   non_null (properties_type (JObj [(''geometry'', JBool True),
                                (''properties'', JObj [(''type'', JStr ''Park'')])])) \<and>
   fst (upload_handler example_engine (Some ''f1'')
       (example_world (feature_collection
          [JObj [(''geometry'', JBool True), (''properties'', JObj [(''type'', JStr ''Park'')])]])
          [])) =
     json_error 500 ''invalid GeoJSON representation'' \<and>
   qlog (snd (upload_handler example_engine (Some ''f1'')
       (example_world (feature_collection
          [JObj [(''geometry'', JBool True), (''properties'', JObj [(''type'', JStr ''Park'')])]])
          []))) =
     [(Begin, None), (DeleteAll, None),
      (Insert [(JBool True, JStr ''Park'')], Some ''invalid GeoJSON representation''),
      (Rollback, None)]"
proof -
  let ?a = "[feature (JStr [])]"
  let ?b = "[feature (JStr ''Park''), JNull]"
  let ?t = "JObj [(''geometry'', JBool True), (''properties'', JObj [(''type'', JStr ''Park'')])]"
  have pa: "params_of ?a = []"
    by (simp add: params_of_def row_params_feature)
  have ia: "insert_batches example_engine ?a 0 0 w = (Inr 0, w)" for w
  proof -
    have "insert_batches example_engine ?a (0 + BATCH_SIZE) 0 w = (Inr 0, w)"
      by (rule insert_batches_stop) (simp add: BATCH_SIZE_def)
    then show ?thesis
      using insert_batches_skip [of 0 ?a example_engine 0 w]
      by (simp add: one_batch feature_parts has_rows_def pa)
  qed
  have ib: "insert_batches example_engine ?b 0 0 w = (Inl (Error (null_read ''geometry'')), w)"
    for w
    using insert_batches_throw [of 0 ?b example_engine 0 w]
    by (simp add: one_batch)
  have pt: "params_of [?t] = [(JBool True, JStr ''Park'')]"
    by (simp add: params_of_def row_params_def geometry_of_def properties_type_def)
  have it: "insert_batches example_engine [?t] 0 0 w =
      (case pool_query example_engine (Insert [(JBool True, JStr ''Park'')]) w of
         (Inl e, w') \<Rightarrow> (Inl e, w')
       | (Inr x, w') \<Rightarrow> insert_batches example_engine [?t] (0 + BATCH_SIZE) (0 + length [?t]) w')"
    for w
  proof -
    have sl: "slice 0 (0 + BATCH_SIZE) [?t] = [?t]"
      by (simp add: slice_def BATCH_SIZE_def)
    show ?thesis
      using insert_batches_send [of 0 "[?t]" example_engine 0 w]
      by (simp only: sl pt) (simp add: has_rows_def pt)
  qed
  have ge: "geom_errors example_engine [(JBool True, JStr ''Park'')] =
      [''invalid GeoJSON representation'']"
    by (simp add: geom_errors_def example_engine_def)
  have 1: "upload_handler example_engine (Some ''f1'')
       (example_world (feature_collection ?a) []) =
     (json_ok (JObj [(''message'', JStr (success_message 0))]),
      \<lparr>committed = [], sessions = (\<lambda>c. None), next_id = 8, script = [],
       qlog = [(Begin, None), (DeleteAll, None), (Commit, None)],
       files = (\<lambda>p. None)\<rparr>)"
    by (auto simp: upload_handler_def upload_try_def read_json_def validate_collection ia
        pool_query_def effect_def scheduled_def next_client_def abort_open_def set_session_def
        logged_def example_world_def pooled_world_def uploaded_path_def fun_eq_iff Let_def
        remaining_def forest_row_def)
  have 2: "upload_handler example_engine (Some ''f1'')
       (example_world (feature_collection ?b) []) =
     (json_error 500 (null_read ''geometry''),
      \<lparr>committed = [forest_row], sessions = (\<lambda>c. None), next_id = 8, script = [],
       qlog = [(Begin, None), (DeleteAll, None), (Rollback, None)],
       files = (\<lambda>p. None)\<rparr>)"
    by (auto simp: upload_handler_def upload_try_def read_json_def validate_collection ib
        pool_query_def effect_def scheduled_def next_client_def abort_open_def set_session_def
        logged_def example_world_def pooled_world_def uploaded_path_def fun_eq_iff Let_def
        message_or_fallback_def null_read_def)
  have 3: "upload_handler example_engine (Some ''f1'')
       (example_world (feature_collection [?t]) []) =
     (json_error 500 ''invalid GeoJSON representation'',
      \<lparr>committed = [forest_row], sessions = (\<lambda>c. None), next_id = 8, script = [],
       qlog = [(Begin, None), (DeleteAll, None),
               (Insert [(JBool True, JStr ''Park'')], Some ''invalid GeoJSON representation''),
               (Rollback, None)],
       files = (\<lambda>p. None)\<rparr>)"
    by (auto simp: upload_handler_def upload_try_def read_json_def validate_collection it
        pool_query_def effect_def scheduled_def next_client_def abort_open_def set_session_def
        logged_def example_world_def pooled_world_def uploaded_path_def fun_eq_iff Let_def
        message_or_fallback_def ge)
  have n: "non_null (geometry_of (feature (JStr [])))"
    "non_null (properties_type (feature (JStr [])))"
    "non_null (geometry_of (feature (JStr ''Park'')))"
    "non_null (properties_type (feature (JStr ''Park'')))"
    by (simp_all add: feature_parts non_null_def point_def)
  have m: "non_null (geometry_of ?t)" "non_null (properties_type ?t)"
    by (simp_all add: non_null_def geometry_of_def properties_type_def)
  show ?thesis
    unfolding 1 2 3 using n m by (simp add: json_ok_def)
qed

text \<open>
  C2, amended. For every upload of a FeatureCollection that succeeds, the rows that the
  INSERT statements carry, all of them accepted, are, in input order, one row for each
  feature whose geometry and \<^verbatim>\<open>properties.type\<close> are both truthy, made from that
  geometry and that label; every other feature is skipped, and skipping does not abort
  anything: the upload succeeds whenever no element of the collection is \<^verbatim>\<open>null\<close>,
  the database can read the geometry of every feature that is not skipped, and it
  accepts the statements.
\<close>

theorem upload_skip_rule:
  assumes "upload_handler eng (Some f) w = (res, w')"
    and "files w (uploaded_path f) = Some (Inr data)" and "validate data = Inr fs"
  shows "(reliable w \<and> JNull \<notin> set fs \<and> readable eng fs \<longrightarrow> status res = 200) \<and>
         (status res = 200 \<longrightarrow>
            clean (new_log w w') \<and>
            inserted (new_log w w') = concat (map row_params fs)) \<and>
         (\<forall>x \<in> set fs.
            row_params x =
              (if defined_truthy (geometry_of x) \<and> defined_truthy (properties_type x)
               then [(the (geometry_of x), the (properties_type x))] else []))"
proof (intro conjI impI ballI)
  assume "reliable w \<and> JNull \<notin> set fs \<and> readable eng fs"
  then have "reliable w" "JNull \<notin> set fs" "readable eng fs" by simp_all
  from upload_reliable_run [OF this(1) assms(2,3) this(2,3) assms(1)]
  show "status res = 200" by (simp add: json_ok_def)
next
  assume s: "status res = 200"
  from upload_ok_run [OF assms(1) s assms(2,3)]
  have l: "new_log w w' = (Begin, None) # (DeleteAll, None) #
                       map (\<lambda>b. (Insert (params_of b), None)) (filter has_rows (batches fs)) @
                       [(Commit, None)]"
    by simp
  show "clean (new_log w w')"
    unfolding l by (rule clean_success)
  show "inserted (new_log w w') = concat (map row_params fs)"
    unfolding l inserted_success by (simp add: params_of_def)
next
  fix x
  show "row_params x =
              (if defined_truthy (geometry_of x) \<and> defined_truthy (properties_type x)
               then [(the (geometry_of x), the (properties_type x))] else [])"
    by (simp add: row_params_insertable insertable_def)
qed

theorem upload_skip_rule_witness:
  "reliable (example_world (feature_collection
       [feature (JStr ''Park''), JObj [(''geometry'', point)], feature (JStr ''Road'')]) []) \<and>
   JNull \<notin> set [feature (JStr ''Park''), JObj [(''geometry'', point)], feature (JStr ''Road'')] \<and>
   readable example_engine
     [feature (JStr ''Park''), JObj [(''geometry'', point)], feature (JStr ''Road'')] \<and>
   status (fst (upload_handler example_engine (Some ''f1'') (example_world (feature_collection
       [feature (JStr ''Park''), JObj [(''geometry'', point)], feature (JStr ''Road'')]) []))) = 200 \<and>
   inserted (qlog (snd (upload_handler example_engine (Some ''f1'') (example_world
     (feature_collection
       [feature (JStr ''Park''), JObj [(''geometry'', point)], feature (JStr ''Road'')]) [])))) =
     [(point, JStr ''Park''), (point, JStr ''Road'')] \<and>
   row_params (feature (JStr ''Park'')) = [(point, JStr ''Park'')] \<and>
   row_params (JObj [(''geometry'', point)]) = []"
proof -
  let ?fs = "[feature (JStr ''Park''), JObj [(''geometry'', point)], feature (JStr ''Road'')]"
  let ?w = "example_world (feature_collection ?fs) []"
  obtain res w' where h: "upload_handler example_engine (Some ''f1'') ?w = (res, w')"
    by fastforce
  have nn: "JNull \<notin> set ?fs" by (simp add: feature_parts)
  have rp: "row_params (JObj [(''geometry'', point)]) = []"
    by (simp add: row_params_def properties_type_def geometry_of_def)
  have po: "params_of ?fs = [(point, JStr ''Park''), (point, JStr ''Road'')]"
    by (simp add: params_of_def row_params_feature rp)
  have rd: "readable example_engine ?fs"
    by (simp add: readable_def po geom_errors_def from_geojson_point)
  note t = upload_skip_rule [OF h example_world_parts(2) validate_collection]
  from t example_world_parts(1) nn rd have st: "status res = 200"
    by blast
  from t st have "inserted (new_log ?w w') = concat (map row_params ?fs)"
    by blast
  then have i: "inserted (qlog w') = [(point, JStr ''Park''), (point, JStr ''Road'')]"
    by (simp add: new_log_def example_world_parts row_params_feature rp)
  show ?thesis
    using h st i nn rd rp example_world_parts(1) by (simp add: row_params_feature)
qed

section \<open>An upload without an insertable feature\<close>

text \<open>
  C9, as stated, fails. The content \<^verbatim>\<open>{"type": "FeatureCollection", "features": [null]}\<close>
  passes the handler's validation and has no feature with both fields, yet reading
  \<^verbatim>\<open>null.geometry\<close> throws: the response is 500 and the table keeps its row. And with
  an empty features array, when the pool serves BEGIN and DELETE on client 0 and COMMIT
  on client 1, the response is 200 and reports 0 inserted features, but the DELETE stays
  pending on client 0 and the table keeps its row.
\<close>

theorem upload_all_skipped_counterexample:
  "validate (feature_collection [JNull]) = Inr [JNull] \<and>
   fst (upload_handler example_engine (Some ''f1'')
          (example_world (feature_collection [JNull]) [])) =
     json_error 500 (null_read ''geometry'') \<and>
   qlog (snd (upload_handler example_engine (Some ''f1'')
          (example_world (feature_collection [JNull]) []))) =
     [(Begin, None), (DeleteAll, None), (Rollback, None)] \<and>
   committed (snd (upload_handler example_engine (Some ''f1'')
          (example_world (feature_collection [JNull]) []))) = [forest_row] \<and>
   fst (upload_handler example_engine (Some ''f1'')
          (pooled_world (feature_collection []) [(0, None), (0, None), (1, None)])) =
     json_ok (JObj [(''message'',
        JStr ''GeoJSON uploaded and database updated successfully! Inserted 0 features.'')]) \<and>
   qlog (snd (upload_handler example_engine (Some ''f1'')
          (pooled_world (feature_collection []) [(0, None), (0, None), (1, None)]))) =
     [(Begin, None), (DeleteAll, None), (Commit, None)] \<and>
   committed (snd (upload_handler example_engine (Some ''f1'')
          (pooled_world (feature_collection []) [(0, None), (0, None), (1, None)]))) =
     [forest_row]"
proof -
  have ib: "insert_batches example_engine [JNull] 0 0 w =
      (Inl (Error (null_read ''geometry'')), w)" for w
    using insert_batches_throw [of 0 "[JNull]" example_engine 0 w]
    by (simp add: one_batch)
  have ie: "insert_batches example_engine [] 0 0 w = (Inr 0, w)" for w
    by (simp add: insert_batches_stop)
  have 1: "upload_handler example_engine (Some ''f1'')
       (example_world (feature_collection [JNull]) []) =
     (json_error 500 (null_read ''geometry''),
      \<lparr>committed = [forest_row], sessions = (\<lambda>c. None), next_id = 8, script = [],
       qlog = [(Begin, None), (DeleteAll, None), (Rollback, None)],
       files = (\<lambda>p. None)\<rparr>)"
    by (auto simp: upload_handler_def upload_try_def read_json_def validate_collection ib
        pool_query_def effect_def scheduled_def next_client_def abort_open_def set_session_def
        logged_def example_world_def pooled_world_def uploaded_path_def fun_eq_iff Let_def
        message_or_fallback_def null_read_def)
  have 2: "upload_handler example_engine (Some ''f1'')
          (pooled_world (feature_collection []) [(0, None), (0, None), (1, None)]) =
     (json_ok (JObj [(''message'', JStr (success_message 0))]),
      \<lparr>committed = [forest_row],
       sessions = (\<lambda>c. if c = 0 then Some (Open [7] []) else None), next_id = 8, script = [],
       qlog = [(Begin, None), (DeleteAll, None), (Commit, None)],
       files = (\<lambda>p. None)\<rparr>)"
    by (auto simp: upload_handler_def upload_try_def read_json_def validate_collection ie
        pool_query_def effect_def scheduled_def next_client_def abort_open_def set_session_def
        logged_def pooled_world_def uploaded_path_def fun_eq_iff Let_def
        remaining_def forest_row_def)
  show ?thesis
    unfolding 1 2 by (simp add: validate_collection success_message_def dec_small)
qed

text \<open>
  C9, amended. For every uploaded FeatureCollection no element of which is \<^verbatim>\<open>null\<close>
  and no feature of which has both a truthy geometry and a truthy
  \<^verbatim>\<open>properties.type\<close> (an empty features array included), when the database accepts the
  statements: exactly BEGIN, the DELETE of all rows and COMMIT are sent, each accepted,
  and the response is 200 with a success message reporting 0 inserted features; the
  case is not treated as an error.
\<close>

theorem upload_all_skipped:
  assumes "reliable w" and "files w (uploaded_path f) = Some (Inr data)"
    and "validate data = Inr fs" and "JNull \<notin> set fs" and "\<forall>x \<in> set fs. \<not> insertable x"
    and "upload_handler eng (Some f) w = (res, w')"
  shows "res = json_ok (JObj [(''message'',
            JStr ''GeoJSON uploaded and database updated successfully! Inserted 0 features.'')]) \<and>
         new_log w w' = [(Begin, None), (DeleteAll, None), (Commit, None)]"
proof -
  have p: "params_of fs = []"
    using assms(5) by (simp add: params_of_Nil_iff row_params_insertable)
  have rd: "readable eng fs"
    by (simp add: readable_def p geom_errors_def)
  have nb: "filter has_rows (batches fs) = []"
    using p by (rule no_rows_batches)
  from upload_reliable_run [OF assms(1-4) rd assms(6)] show ?thesis
    by (simp add: nb success_message_def dec_small)
qed

theorem upload_all_skipped_witness:
  "reliable (example_world (feature_collection
       [JObj [(''geometry'', point)], feature (JStr []), JObj []]) []) \<and>
   JNull \<notin> set [JObj [(''geometry'', point)], feature (JStr []), JObj []] \<and>
   insertable (JObj [(''geometry'', point)]) = False \<and>
   insertable (feature (JStr [])) = False \<and>
   insertable (JObj []) = False \<and>
   fst (upload_handler example_engine (Some ''f1'') (example_world (feature_collection
       [JObj [(''geometry'', point)], feature (JStr []), JObj []]) [])) =
     json_ok (JObj [(''message'',
        JStr ''GeoJSON uploaded and database updated successfully! Inserted 0 features.'')]) \<and>
   qlog (snd (upload_handler example_engine (Some ''f1'') (example_world (feature_collection
       [JObj [(''geometry'', point)], feature (JStr []), JObj []]) []))) =
     [(Begin, None), (DeleteAll, None), (Commit, None)]"
proof -
  let ?fs = "[JObj [(''geometry'', point)], feature (JStr []), JObj []]"
  let ?w = "example_world (feature_collection ?fs) []"
  obtain res w' where h: "upload_handler example_engine (Some ''f1'') ?w = (res, w')"
    by fastforce
  have nn: "JNull \<notin> set ?fs" by (simp add: feature_parts)
  have i: "insertable (JObj [(''geometry'', point)]) = False"
    "insertable (feature (JStr [])) = False" "insertable (JObj []) = False"
    by (simp_all add: insertable_def defined_truthy_def feature_parts)
       (simp_all add: geometry_of_def properties_type_def)
  have a: "\<forall>x \<in> set ?fs. \<not> insertable x"
    using i by simp
  from upload_all_skipped [OF example_world_parts(1,2) validate_collection nn a h]
  have "res = json_ok (JObj [(''message'',
            JStr ''GeoJSON uploaded and database updated successfully! Inserted 0 features.'')])"
    "qlog w' = [(Begin, None), (DeleteAll, None), (Commit, None)]"
    by (simp_all add: new_log_def example_world_parts)
  then show ?thesis
    using h nn i example_world_parts(1) by simp
qed

lemma ulp_num: "ulp 1000000000000000000000 = 131072"
  by (simp add: ulp.simps)

lemma nearest_double_num: "nearest_double 1000000000000000000000 = 1000000000000000000000"
  by (simp add: nearest_double_def ulp_num Let_def)

lemma parseInt10_eval:
  "parseInt10 ''-1'' = Some (- 1)" "parseInt10 ''abc'' = None"
  "parseInt10 ''0'' = Some 0" "parseInt10 ''1'' = Some 1"
  by (simp_all add: parseInt10_def code_points_ascii is_ws_def is_digit_def digits_val_def
      digit_val_def Let_def)

lemma parseInt10_big: "parseInt10 ''1000000000000000000000'' = Some 1000000000000000000000"
  using parseInt10_digits [of "''1000000000000000000000''"]
  by (simp add: is_digit_def digits_val_def digit_val_def)

lemma next_failure_None:
  "next_failure w = None \<longleftrightarrow>
     scheduled w = None \<and> sessions w (next_client w) \<noteq> Some Aborted"
  by (auto simp: next_failure_def split: option.splits if_splits)

lemma page_query:
  assumes "next_failure w = None"
  shows "pool_query eng (SelectPage flt ofs lmt) w =
           (case run eng (SelectPage flt ofs lmt) w of
              Inl e \<Rightarrow> (Inl e, logged (SelectPage flt ofs lmt) (Some (message e)) (abort_open w))
            | Inr (r, w') \<Rightarrow> (Inr r, logged (SelectPage flt ofs lmt) None w'))"
  using assms by (simp add: next_failure_None pool_query_def effect_def)

lemma three_rows_world:
  "next_failure ((example_world JNull [])\<lparr>committed := three_rows\<rparr>) = None"
  "visible ((example_world JNull [])\<lparr>committed := three_rows\<rparr>) = three_rows"
  by (simp_all add: next_failure_def scheduled_def next_client_def visible_def visible_to_def
      example_world_parts)

lemma sort_three_rows:
  "sort_key row_id three_rows =
     [\<lparr>row_id = 3, geom = point, ltype = Some ''Park''\<rparr>,
      \<lparr>row_id = 5, geom = point, ltype = Some ''Road''\<rparr>,
      \<lparr>row_id = 7, geom = point, ltype = Some ''Forest''\<rparr>]"
  by (simp add: three_rows_def)

section \<open>Pagination\<close>

text \<open>
  C4, as stated, fails. With \<^verbatim>\<open>limit=0\<close>, a parameter that is present and numeric, the
  endpoint does not return at most 0 features: 0 is falsy, the limit becomes 1000 and the
  one row of the table is returned. And the status is not always 200: with
  \<^verbatim>\<open>offset=-1\<close> the database rejects the negative \<^verbatim>\<open>OFFSET\<close>, and with
  \<^verbatim>\<open>limit=1000000000000000000000\<close> it rejects the text the driver sends for the
  number; both responses are 500.
\<close>

theorem land_use_limit_counterexample:
  "parse_param (Some ''0'') = Some 0 \<and>
   fst (land_use_handler example_engine (Some ''0'') None (example_world JNull [])) =
     json_ok (feature_collection [as_geojson example_engine forest_row]) \<and>
   fst (land_use_handler example_engine None (Some ''-1'') (example_world JNull [])) =
     json_error 500 ''Database error fetching land use'' \<and>
   fst (land_use_handler example_engine (Some ''1000000000000000000000'') None
          (example_world JNull [])) =
     json_error 500 ''Database error fetching land use''"
proof -
  have nf: "next_failure (example_world JNull []) = None"
    by (simp add: next_failure_def example_world_next example_world_parts)
  have w: "wire_int example_engine 1000000000000000000000 =
             Inl ''invalid input syntax for type bigint''"
    by (simp add: example_engine_def nearest_double_num)
  have a: "fst (land_use_handler example_engine (Some ''0'') None (example_world JNull [])) =
     json_ok (feature_collection [as_geojson example_engine forest_row])"
    by (simp add: land_use_handler_def page_query [OF nf] parse_param_def parseInt10_eval
        or_default_def bigint_param_def select_rows_def page_def example_world_next)
  have b: "fst (land_use_handler example_engine None (Some ''-1'') (example_world JNull [])) =
     json_error 500 ''Database error fetching land use''"
    by (simp add: land_use_handler_def page_query [OF nf] parse_param_def parseInt10_eval
        or_default_def bigint_param_def)
  have c: "fst (land_use_handler example_engine (Some ''1000000000000000000000'') None
          (example_world JNull [])) =
     json_error 500 ''Database error fetching land use''"
    by (simp add: land_use_handler_def page_query [OF nf] parse_param_def parseInt10_big
        or_default_def bigint_param_def w)
  show ?thesis
    using a b c by (simp add: parse_param_def parseInt10_eval)
qed

text \<open>
  C4, amended. For every request whose query the database answers (no rejection awaits
  it, the database can read the offset and the limit passed on, and neither is
  negative), the response is 200 with a FeatureCollection of the rows in ascending
  identifier order, after skipping the first \<open>bo\<close> rows and keeping at most \<open>bl\<close> (an
  empty array when none is left), where \<open>bo\<close> and \<open>bl\<close> are the offset and the limit as the
  database reads them. The limit passed on is what \<^verbatim>\<open>parseInt\<close> reads from the limit
  parameter, or 1000 when the parameter is absent, \<^verbatim>\<open>parseInt\<close> reads no integer, or it
  reads 0; the offset passed on is what it reads from the offset parameter, or 0. Up to
  \<open>2^53\<close> in magnitude the database reads exactly the number passed on.
\<close>

theorem land_use_page:
  assumes "next_failure w = None"
    and "bigint_param eng (or_default (parse_param qoffset) 0) = Inr bo"
    and "bigint_param eng (or_default (parse_param qlimit) 1000) = Inr bl"
    and "0 \<le> bo" and "0 \<le> bl"
  shows "(let rs = take (nat bl) (drop (nat bo) (sort_key row_id (visible w)))
          in fst (land_use_handler eng qlimit qoffset w) =
               json_ok (feature_collection (map (as_geojson eng) rs)) \<and>
             int (length rs) \<le> bl \<and> sorted (map row_id rs)) \<and>
         or_default (parse_param qlimit) 1000 =
           (case parse_param qlimit of None \<Rightarrow> 1000 | Some n \<Rightarrow> if n = 0 then 1000 else n) \<and>
         or_default (parse_param qoffset) 0 =
           (case parse_param qoffset of None \<Rightarrow> 0 | Some n \<Rightarrow> n) \<and>
         (\<bar>or_default (parse_param qlimit) 1000\<bar> \<le> 2 ^ 53 \<longrightarrow>
            bl = or_default (parse_param qlimit) 1000) \<and>
         (\<bar>or_default (parse_param qoffset) 0\<bar> \<le> 2 ^ 53 \<longrightarrow>
            bo = or_default (parse_param qoffset) 0) \<and>
         parse_param None = None"
proof -
  let ?lmt = "or_default (parse_param qlimit) 1000"
  let ?ofs = "or_default (parse_param qoffset) 0"
  let ?rs = "take (nat bl) (drop (nat bo) (sort_key row_id (visible w)))"
  have h: "fst (land_use_handler eng qlimit qoffset w) =
               json_ok (feature_collection (map (as_geojson eng) ?rs))"
    using assms(2-5)
    by (simp add: land_use_handler_def page_query [OF assms(1)] select_rows_def page_def Let_def)
  have l: "int (length ?rs) \<le> bl"
    using assms(5) by simp
  have s: "sorted (map row_id ?rs)"
    by (simp add: take_map [symmetric] drop_map [symmetric] sorted_wrt_take sorted_wrt_drop)
  have d1: "?lmt = (case parse_param qlimit of None \<Rightarrow> 1000
                    | Some n \<Rightarrow> if n = 0 then 1000 else n)"
    by (simp add: or_default_def)
  have d2: "?ofs = (case parse_param qoffset of None \<Rightarrow> 0 | Some n \<Rightarrow> n)"
    by (simp add: or_default_def split: option.splits)
  have e1: "\<bar>?lmt\<bar> \<le> 2 ^ 53 \<longrightarrow> bl = ?lmt"
    using assms(3) by (auto simp: bigint_param_def split: if_splits)
  have e2: "\<bar>?ofs\<bar> \<le> 2 ^ 53 \<longrightarrow> bo = ?ofs"
    using assms(2) by (auto simp: bigint_param_def split: if_splits)
  have n: "parse_param None = None"
    by (simp add: parse_param_def)
  show ?thesis
    unfolding Let_def using h l s d1 d2 e1 e2 n by (intro conjI)
qed

theorem land_use_page_witness:
  "next_failure ((example_world JNull [])\<lparr>committed := three_rows\<rparr>) = None \<and>
   bigint_param example_engine (or_default (parse_param (Some ''1'')) 0) = Inr 1 \<and>
   bigint_param example_engine (or_default (parse_param (Some ''1'')) 1000) = Inr 1 \<and>
   (0::int) \<le> 1 \<and> \<bar>or_default (parse_param (Some ''1'')) 1000\<bar> \<le> 2 ^ 53 \<and>
   fst (land_use_handler example_engine (Some ''1'') (Some ''1'')
          ((example_world JNull [])\<lparr>committed := three_rows\<rparr>)) =
     json_ok (feature_collection
       [as_geojson example_engine \<lparr>row_id = 5, geom = point, ltype = Some ''Road''\<rparr>]) \<and>
   bigint_param example_engine (or_default (parse_param None) 0) = Inr 0 \<and>
   bigint_param example_engine (or_default (parse_param (Some ''abc'')) 1000) = Inr 1000 \<and>
   fst (land_use_handler example_engine (Some ''abc'') None
          ((example_world JNull [])\<lparr>committed := three_rows\<rparr>)) =
     json_ok (feature_collection
       [as_geojson example_engine \<lparr>row_id = 3, geom = point, ltype = Some ''Park''\<rparr>,
        as_geojson example_engine \<lparr>row_id = 5, geom = point, ltype = Some ''Road''\<rparr>,
        as_geojson example_engine \<lparr>row_id = 7, geom = point, ltype = Some ''Forest''\<rparr>])"
proof -
  let ?w = "(example_world JNull [])\<lparr>committed := three_rows\<rparr>"
  have p: "parse_param (Some ''1'') = Some 1" "parse_param (Some ''abc'') = None"
    "parse_param None = None"
    by (simp_all add: parse_param_def parseInt10_eval)
  have b1: "bigint_param example_engine (or_default (parse_param (Some ''1'')) 0) = Inr 1"
    and b2: "bigint_param example_engine (or_default (parse_param (Some ''1'')) 1000) = Inr 1"
    and b3: "bigint_param example_engine (or_default (parse_param None) 0) = Inr 0"
    and b4: "bigint_param example_engine (or_default (parse_param (Some ''abc'')) 1000) = Inr 1000"
    by (simp_all add: p or_default_def bigint_param_def)
  have a: "fst (land_use_handler example_engine (Some ''1'') (Some ''1'') ?w) =
     json_ok (feature_collection
       [as_geojson example_engine \<lparr>row_id = 5, geom = point, ltype = Some ''Road''\<rparr>])"
    using land_use_page [OF three_rows_world(1) b1 b2]
    by (simp add: three_rows_world sort_three_rows)
  have b: "fst (land_use_handler example_engine (Some ''abc'') None ?w) =
     json_ok (feature_collection
       [as_geojson example_engine \<lparr>row_id = 3, geom = point, ltype = Some ''Park''\<rparr>,
        as_geojson example_engine \<lparr>row_id = 5, geom = point, ltype = Some ''Road''\<rparr>,
        as_geojson example_engine \<lparr>row_id = 7, geom = point, ltype = Some ''Forest''\<rparr>])"
    using land_use_page [OF three_rows_world(1) b3 b4]
    by (simp add: three_rows_world sort_three_rows)
  have c: "\<bar>or_default (parse_param (Some ''1'')) 1000\<bar> \<le> 2 ^ 53"
    by (simp add: p or_default_def)
  show ?thesis
    using three_rows_world(1) b1 b2 b3 b4 a b c by (intro conjI) simp_all
qed

section \<open>Matching a category whatever the letter case\<close>




end
